theory Spec2Isabelle
  imports Complex_Main
begin

section \<open>Python primitives used by the two scripts\<close>

text \<open>
  The two scripts \<^verbatim>\<open>flights_one_sat_filter.py\<close> and \<^verbatim>\<open>flights_within_satcov_kml.py\<close>
  are straight-line Python programs. An uncaught exception and \<^verbatim>\<open>sys.exit()\<close> both end
  the run; they are values of \<open>exn\<close>.
\<close>

datatype exn = SystemExit | ValueError | IndexError | KeyError | TypeError

text \<open>\<^verbatim>\<open>s.split(sep)\<close> for a one-character separator: every occurrence splits, empty
  pieces are kept, and the result is never empty.\<close>

fun split :: "char \<Rightarrow> string \<Rightarrow> string list" where
  "split sep [] = [[]]"
| "split sep (c # cs) =
     (if c = sep then [] # split sep cs
      else (case split sep cs of
              [] \<Rightarrow> [[c]]
            | w # ws \<Rightarrow> (c # w) # ws))"

text \<open>\<^verbatim>\<open>int(s)\<close> on an ASCII string, base 10: surrounding white space is dropped, one sign
  is allowed, then decimal digits, where single underscores may stand between digits.
  Anything else is a \<^verbatim>\<open>ValueError\<close>, here \<open>None\<close>. (The digit-count limit of recent
  interpreters, 4300 digits, is not modelled.)\<close>

definition isspace :: "char \<Rightarrow> bool" where
  "isspace c = (c \<in> set [CHR 0x09, CHR 0x0A, CHR 0x0B, CHR 0x0C, CHR 0x0D, CHR 0x20])"

definition isdigit :: "char \<Rightarrow> bool" where
  "isdigit c = (c \<in> set ''0123456789'')"

definition strip :: "string \<Rightarrow> string" where
  "strip s = rev (dropWhile isspace (rev (dropWhile isspace s)))"

definition digit_val :: "char \<Rightarrow> nat" where
  "digit_val c = of_char c - 48"

definition decimal :: "string \<Rightarrow> nat" where
  "decimal ds = foldl (\<lambda>a c. 10 * a + digit_val c) 0 ds"

definition py_int :: "string \<Rightarrow> int option" where
  "py_int s =
     (let t = strip s;
          neg = (case t of [] \<Rightarrow> False | c # _ \<Rightarrow> c = CHR ''-'');
          body = (case t of [] \<Rightarrow> [] | c # r \<Rightarrow> if c = CHR ''-'' \<or> c = CHR ''+'' then r else t);
          groups = split (CHR ''_'') body
      in if list_all (\<lambda>g. g \<noteq> [] \<and> list_all isdigit g) groups
         then Some (if neg then - int (decimal (concat groups)) else int (decimal (concat groups)))
         else None)"

text \<open>\<^verbatim>\<open>str(n)\<close> for an integer.\<close>

fun str_nat :: "nat \<Rightarrow> string" where
  "str_nat n =
     (if n < 10 then [''0123456789'' ! n]
      else str_nat (n div 10) @ [''0123456789'' ! (n mod 10)])"

declare str_nat.simps [simp del]

definition str_int :: "int \<Rightarrow> string" where
  "str_int i = (if i < 0 then CHR ''-'' # str_nat (nat (- i)) else str_nat (nat i))"

text \<open>\<^verbatim>\<open>xs.index(x)\<close>: the first position of \<open>x\<close>, \<^verbatim>\<open>ValueError\<close> when absent.\<close>

fun index :: "'a list \<Rightarrow> 'a \<Rightarrow> exn + nat" where
  "index [] x = Inl ValueError"
| "index (y # ys) x =
     (if y = x then Inr 0
      else (case index ys x of Inl e \<Rightarrow> Inl e | Inr i \<Rightarrow> Inr (Suc i)))"

text \<open>\<^verbatim>\<open>xs[i]\<close> for a non-negative index: \<^verbatim>\<open>IndexError\<close> out of range.\<close>

definition getitem :: "'a list \<Rightarrow> nat \<Rightarrow> exn + 'a" where
  "getitem xs i = (if i < length xs then Inr (xs ! i) else Inl IndexError)"

text \<open>\<^verbatim>\<open>os.path.splitext(p)[1]\<close> with the POSIX separator: the extension starts at the
  last dot of the last path component, leading dots of that component not counted.\<close>

definition basename :: "string \<Rightarrow> string" where
  "basename p = rev (takeWhile (\<lambda>c. c \<noteq> CHR ''/'') (rev p))"

definition splitext_ext :: "string \<Rightarrow> string" where
  "splitext_ext p =
     (let name = dropWhile (\<lambda>c. c = CHR ''.'') (basename p)
      in if CHR ''.'' \<in> set name
         then CHR ''.'' # rev (takeWhile (\<lambda>c. c \<noteq> CHR ''.'') (rev name))
         else [])"

definition startswith :: "string \<Rightarrow> string \<Rightarrow> bool" where
  "startswith s pre = (take (length pre) s = pre)"

section \<open>Data model and collaborators\<close>

text \<open>A row of the flights table: column 0 is the time instant, columns 1 and 2 the
  latitude and the longitude (\<^verbatim>\<open>iloc[:,0]\<close>, \<^verbatim>\<open>iloc[:,1]\<close>, \<^verbatim>\<open>iloc[:,2]\<close>).\<close>

record flight =
  time_instant :: string
  latitude :: real
  longitude :: real

text \<open>The object returned by geopy's \<^verbatim>\<open>great_circle(a, b)\<close>; the scripts read its
  attributes \<^verbatim>\<open>.nm\<close> and \<^verbatim>\<open>.km\<close>.\<close>

record distance =
  km :: real
  nm :: real

text \<open>A property value of a GeoJSON feature, and a feature as \<^verbatim>\<open>getFIRs\<close> reads it:
  \<^verbatim>\<open>feature.geometry.coordinates\<close> is a list of rings, a ring a list of points, a point
  a list of numbers; \<^verbatim>\<open>feature.properties\<close> is a dictionary in insertion order.\<close>

datatype pval = PStr string | PNum real | PBool bool | PNull

record feature =
  coordinates :: "real list list list"
  properties :: "(string \<times> pval) list"

text \<open>What the scripts call and this repository does not define: \<^verbatim>\<open>float\<close>,
  \<^verbatim>\<open>str\<close> on a number, \<^verbatim>\<open>os.path.isfile\<close>, \<^verbatim>\<open>pd.read_csv\<close>, \<^verbatim>\<open>pygeoj.load\<close> and
  geopy's \<^verbatim>\<open>great_circle\<close>. They are parameters of the model.\<close>

record env =
  py_float :: "string \<Rightarrow> real option"
  str_num :: "real \<Rightarrow> string"
  isfile :: "string \<Rightarrow> bool"
  read_csv :: "string \<Rightarrow> flight list"
  pygeoj_load :: "string \<Rightarrow> feature list"
  great_circle :: "real \<times> real \<Rightarrow> real \<times> real \<Rightarrow> distance"

text \<open>What a run leaves behind: the arguments of its \<^verbatim>\<open>print\<close> calls, the files it
  has loaded, the output file it has opened (name and text written), and the exception
  that ended it (\<open>None\<close> for a run that reaches the end of the script).\<close>

record outcome =
  stdout :: "string list"
  loaded :: "string list"
  out_file :: "(string \<times> string) option"
  raised :: "exn option"

definition stop :: "string list \<Rightarrow> exn \<Rightarrow> outcome" where
  "stop out e = \<lparr>stdout = out, loaded = [], out_file = None, raised = Some e\<rparr>"

section \<open>Initial checks (sections 0.1 and 0.2 of both scripts)\<close>

definition help_manual_filter :: string where
  "help_manual_filter =
     ''flights_one_sat_filter.py <mandatory_arg> <optional_arg>\<newline>\<newline>'' @
     ''  Mandatory arguments:\<newline>\<newline>'' @
     ''  *  <flights_file>:     Flight positions file per time instant.\<newline>'' @
     ''                         It must be in cvs extension.\<newline>'' @
     ''  *  -lat <latitude>:    Satellite latitude\<newline>'' @
     ''  *  -lon <longitude>:   Satellite longitude\<newline>'' @
     ''  *  -time <sat_time>:   Time instant\<newline>'' @
     ''  *  -rad <sat_radius>:  Satellite coverage radius\<newline>\<newline>'' @
     ''  Optional arguments:\<newline>\<newline>'' @
     ''  *  -nm:                Use nautic miles for satellite radius\<newline>'' @
     ''                         (default_option)\<newline>'' @
     ''  *  -km:                Use kilometers for satellite radius\<newline>\<newline>'' @
     ''Example:\<newline>\<newline>'' @
     ''python flights_one_sat_filter.py file.csv -lat 15.092736 '' @
     ''-lon -23.792856 -time 23:25:00 -rad 1000 -km''"

definition help_manual_kml :: string where
  "help_manual_kml =
     ''flights_within_satcov_kml.py <mandatory_arg> <optional_arg>\<newline>\<newline>'' @
     ''  Mandatory arguments:\<newline>\<newline>'' @
     ''  *  <geojson_file>:     GeoJSON file with FIR information\<newline>'' @
     ''  *  <flights_file>:     Flight positions file per time instant.\<newline>'' @
     ''                         It must be in cvs extension.\<newline>'' @
     ''  *  <output_name>:      Output file name'' @
     ''  *  -lat <latitude>:    Satellite latitude\<newline>'' @
     ''  *  -lon <longitude>:   Satellite longitude\<newline>'' @
     ''  *  -time <sat_time>:   Time instant to filter by\<newline>'' @
     ''  *  -rad <sat_radius>:  Satellite radius coverage\<newline>\<newline>'' @
     ''  Optional arguments:\<newline>\<newline>'' @
     ''  *  -nm:                Use nautic miles for satellite radius\<newline>'' @
     ''                         (default_option)\<newline>'' @
     ''  *  -km:                Use kilometers for satellite radius\<newline>\<newline>'' @
     ''Example:\<newline>\<newline>'' @
     ''python flights_within_satcov_kml.py firs.geojson fired.csv output.kml '' @
     ''-lat 15.092736 -lon -23.792856 -time 23:25:00 -rad 1000 -km''"

text \<open>Section 0.1, the same block in both scripts but for the least number of arguments
  (10 and 12) and the manual: \<open>Some out\<close> when the script prints \<open>out\<close> and calls
  \<^verbatim>\<open>sys.exit()\<close>, \<open>None\<close> when it goes on.\<close>

definition man_arg_list :: "string list" where
  "man_arg_list = [''-lat'', ''-lon'', ''-time'', ''-rad'']"

definition arguments_filtering :: "nat \<Rightarrow> string \<Rightarrow> string list \<Rightarrow> string list option" where
  "arguments_filtering n help_manual argv =
     (if length argv < n then
        Some ((if length argv = 2 \<and> argv ! 1 = ''-h''
               then ''\<newline>HELP MANUAL\<newline>''
               else ''\<newline>ERROR: Incorrect arguments\<newline>'') # [help_manual])
      else (case find (\<lambda>argument. argument \<notin> set argv) man_arg_list of
              Some argument \<Rightarrow>
                Some [''ERROR: '' @ argument @ '' argument not found\<newline>'', help_manual]
            | None \<Rightarrow> None))"

text \<open>\<^verbatim>\<open>sys.argv[int(sys.argv.index(flag)) + 1]\<close>.\<close>

definition arg_after :: "string list \<Rightarrow> string \<Rightarrow> exn + string" where
  "arg_after argv flag =
     (case index argv flag of
        Inl e \<Rightarrow> Inl e
      | Inr i \<Rightarrow> getitem argv (i + 1))"

text \<open>Section 0.2.1, the body of the \<^verbatim>\<open>try\<close>: latitude and longitude through
  \<^verbatim>\<open>float\<close>, the radius through \<^verbatim>\<open>int\<close>, in this order.\<close>

definition numerical_values :: "env \<Rightarrow> string list \<Rightarrow> exn + (real \<times> real \<times> int)" where
  "numerical_values env argv =
     (case arg_after argv ''-lat'' of
        Inl e \<Rightarrow> Inl e
      | Inr a \<Rightarrow>
     (case py_float env a of
        None \<Rightarrow> Inl ValueError
      | Some sat_lat \<Rightarrow>
     (case arg_after argv ''-lon'' of
        Inl e \<Rightarrow> Inl e
      | Inr b \<Rightarrow>
     (case py_float env b of
        None \<Rightarrow> Inl ValueError
      | Some sat_lon \<Rightarrow>
     (case arg_after argv ''-rad'' of
        Inl e \<Rightarrow> Inl e
      | Inr c \<Rightarrow>
     (case py_int c of
        None \<Rightarrow> Inl ValueError
      | Some sat_radius \<Rightarrow> Inr (sat_lat, sat_lon, sat_radius)))))))"

text \<open>Section 0.2.2, the condition of the \<^verbatim>\<open>if\<close>: \<open>Inr True\<close> when the time is
  refused (the script prints the error and exits), \<open>Inr False\<close> when it is let through,
  \<open>Inl ValueError\<close> when an \<^verbatim>\<open>int(...)\<close> of the condition raises. The chained
  comparisons evaluate each \<^verbatim>\<open>int(...)\<close> once and \<^verbatim>\<open>and\<close>/\<^verbatim>\<open>or\<close> short-circuit; the
  third comparison reads \<^verbatim>\<open>sat_time_split[1]\<close> again.\<close>

definition in_range :: "string \<Rightarrow> int \<Rightarrow> exn + bool" where
  "in_range field bound =
     (case py_int field of
        None \<Rightarrow> Inl ValueError
      | Some v \<Rightarrow> Inr (0 \<le> v \<and> v < bound))"

definition incorrect_time_format :: "string \<Rightarrow> exn + bool" where
  "incorrect_time_format sat_time =
     (let sat_time_split = split (CHR '':'') sat_time in
      if length sat_time_split \<noteq> 3 then Inr True
      else (case in_range (sat_time_split ! 0) 24 of
              Inl e \<Rightarrow> Inl e
            | Inr False \<Rightarrow> Inr True
            | Inr True \<Rightarrow>
          (case in_range (sat_time_split ! 1) 60 of
              Inl e \<Rightarrow> Inl e
            | Inr False \<Rightarrow> Inr True
            | Inr True \<Rightarrow>
          (case in_range (sat_time_split ! 1) 60 of
              Inl e \<Rightarrow> Inl e
            | Inr False \<Rightarrow> Inr True
            | Inr True \<Rightarrow> Inr False))))"

text \<open>Sections 0.2.3 and 0.2.4 of the overlay script, 0.2.3 of the filter script: the
  argument must name an existing file with the given extension. \<open>Some out\<close> when the
  script prints \<open>out\<close> and exits.\<close>

definition file_check :: "env \<Rightarrow> string \<Rightarrow> string \<Rightarrow> string \<Rightarrow> string \<Rightarrow> string list option" where
  "file_check env path ext wrong_ext not_file =
     (if isfile env path then
        (if splitext_ext path \<noteq> ext
         then Some [''\<newline>ERROR: Incorrect file extension'', wrong_ext]
         else None)
      else Some [''\<newline>ERROR: argument is not a file'', not_file])"

definition csv_check :: "env \<Rightarrow> string \<Rightarrow> string list option" where
  "csv_check env path =
     file_check env path ''.csv''
       ''File with flights information must be in csv format''
       ''Please, introduce a .csv valid file''"

definition geojson_check :: "env \<Rightarrow> string \<Rightarrow> string list option" where
  "geojson_check env path =
     file_check env path ''.geojson''
       ''FIR information file must be in geojson format''
       ''Please, introduce a .geojson valid file''"

text \<open>Section 1.1: the echo of the input values.\<close>

definition user_information :: "env \<Rightarrow> string \<Rightarrow> int \<Rightarrow> bool \<Rightarrow> real \<Rightarrow> real \<Rightarrow> string list" where
  "user_information env sat_time sat_radius radius_in_mn sat_lat sat_lon =
     [''\<newline>User input values:'',
      ''  Satellite time:      '' @ sat_time,
      ''  Satellite radius:    '' @ str_int sat_radius @ '' '' @
         (if radius_in_mn then ''NM'' else ''km''),
      ''  Satellite latitude:  '' @ str_num env sat_lat,
      ''  Satellite longitude: '' @ str_num env sat_lon]"

section \<open>Time slice and coverage test\<close>

text \<open>\<^verbatim>\<open>df[mask]\<close>: the rows whose mask entry is true, in the order of the frame.\<close>

fun boolean_index :: "'a list \<Rightarrow> bool list \<Rightarrow> 'a list" where
  "boolean_index (x # xs) (b # bs) =
     (if b then x # boolean_index xs bs else boolean_index xs bs)"
| "boolean_index _ _ = []"

text \<open>Sections 1.3 and 2.5.1:
  \<^verbatim>\<open>filtered_df = flights_df[flights_df.iloc[:,0] == sat_time]\<close>.\<close>

definition filtered_df :: "flight list \<Rightarrow> string \<Rightarrow> flight list" where
  "filtered_df flights_df sat_time =
     boolean_index flights_df (map (\<lambda>row. time_instant row = sat_time) flights_df)"

text \<open>The body of the loop of section 1.4 of the filter script, up to the flag:
  \<^verbatim>\<open>if radius_in_mn and great_circle(...).nm < sat_radius: ... elif great_circle(...).km < sat_radius: ...\<close>\<close>

definition flight_accepted_filter ::
  "env \<Rightarrow> bool \<Rightarrow> int \<Rightarrow> real \<times> real \<Rightarrow> real \<times> real \<Rightarrow> bool" where
  "flight_accepted_filter env radius_in_mn sat_radius sat_pos flight_pos =
     (if radius_in_mn \<and> nm (great_circle env sat_pos flight_pos) < of_int sat_radius then True
      else if km (great_circle env sat_pos flight_pos) < of_int sat_radius then True
      else False)"

text \<open>Section 1.4: the loop over \<^verbatim>\<open>range(len(flights_lat))\<close> that counts. Both lists are
  columns of the same frame, so every index read is in range.\<close>

definition aircraft_count ::
  "env \<Rightarrow> bool \<Rightarrow> int \<Rightarrow> real \<Rightarrow> real \<Rightarrow> real list \<Rightarrow> real list \<Rightarrow> nat" where
  "aircraft_count env radius_in_mn sat_radius sat_lat sat_lon flights_lat flights_lon =
     fold (\<lambda>i count.
             if flight_accepted_filter env radius_in_mn sat_radius
                  (sat_lat, sat_lon) (flights_lat ! i, flights_lon ! i)
             then count + 1 else count)
          [0 ..< length flights_lat] 0"

section \<open>The filter script\<close>

definition flights_one_sat_filter :: "env \<Rightarrow> string list \<Rightarrow> outcome" where
  "flights_one_sat_filter env argv =
     (case arguments_filtering 10 help_manual_filter argv of
        Some out \<Rightarrow> stop out SystemExit
      | None \<Rightarrow>
     (case numerical_values env argv of
        Inl ValueError \<Rightarrow>
          stop [''\<newline>ERROR: Incorrect argument values\<newline>'', help_manual_filter] SystemExit
      | Inl e \<Rightarrow> stop [] e
      | Inr (sat_lat, sat_lon, sat_radius) \<Rightarrow>
     (case arg_after argv ''-time'' of
        Inl e \<Rightarrow> stop [] e
      | Inr sat_time \<Rightarrow>
     (case incorrect_time_format sat_time of
        Inl e \<Rightarrow> stop [] e
      | Inr True \<Rightarrow>
          stop [''\<newline>ERROR: Incorrect time format\<newline>'', help_manual_filter] SystemExit
      | Inr False \<Rightarrow>
     (case csv_check env (argv ! 1) of
        Some out \<Rightarrow> stop out SystemExit
      | None \<Rightarrow>
          (let flights_file = argv ! 1;
               radius_in_mn = (''-km'' \<notin> set argv);
               flights_df = read_csv env flights_file;
               filtered = filtered_df flights_df sat_time;
               flights_lat = map latitude filtered;
               flights_lon = map longitude filtered;
               count = aircraft_count env radius_in_mn sat_radius sat_lat sat_lon
                         flights_lat flights_lon
           in \<lparr>stdout =
                  user_information env sat_time sat_radius radius_in_mn sat_lat sat_lon @
                  [''\<newline>Loading file...'',
                   ''\<newline>Flights within satellite coverage: '' @ str_nat count],
                loaded = [flights_file],
                out_file = None,
                raised = None\<rparr>))))))"

section \<open>The overlay (KML) script\<close>

definition dq :: string where
  "dq = [CHR 0x22]"

definition tabs :: "nat \<Rightarrow> string" where
  "tabs n = replicate n (CHR 0x09)"

text \<open>\<^verbatim>\<open>getFIRs\<close>: the first ring and the properties of every feature, in order;
  \<^verbatim>\<open>coordinates[0]\<close> raises on a feature with no ring.\<close>

fun getFIRs :: "feature list \<Rightarrow> exn + (real list list list \<times> (string \<times> pval) list list)" where
  "getFIRs [] = Inr ([], [])"
| "getFIRs (f # fs) =
     (case getitem (coordinates f) 0 of
        Inl e \<Rightarrow> Inl e
      | Inr ring \<Rightarrow>
     (case getFIRs fs of
        Inl e \<Rightarrow> Inl e
      | Inr (polygons, names) \<Rightarrow> Inr (ring # polygons, properties f # names)))"

text \<open>\<^verbatim>\<open>writeKML\<close>: the buffer goes to the file and is emptied.\<close>

definition writeKML :: "string \<Rightarrow> string \<Rightarrow> string \<times> string" where
  "writeKML kml_file kml_text = (kml_file @ kml_text, [])"

text \<open>Section 2.2, and the two styles of section 2.3.\<close>

definition kml_initial :: "string \<Rightarrow> string" where
  "kml_initial name =
     ''<?xml version='' @ dq @ ''1.0'' @ dq @ '' encoding='' @ dq @ ''UTF-8'' @ dq @ ''?>\<newline>'' @
     ''<kml xmlns='' @ dq @ ''http://www.opengis.net/kml/2.2'' @ dq @ '' '' @
     ''xmlns:gx='' @ dq @ ''http://www.google.com/kml/ext/2.2'' @ dq @ '' '' @
     ''xmlns:kml='' @ dq @ ''http://www.opengis.net/kml/2.2'' @ dq @ '' '' @
     ''xmlns:atom='' @ dq @ ''http://www.w3.org/2005/Atom'' @ dq @ ''>\<newline>'' @
     ''<Document>\<newline>'' @
     tabs 1 @ ''<name>'' @ name @ ''</name>\<newline>'' @
     tabs 1 @ ''<open>1</open>\<newline>''"

definition style_FIR :: string where
  "style_FIR =
     tabs 1 @ ''<Style id='' @ dq @ ''FIR'' @ dq @ ''>\<newline>'' @
     tabs 2 @ ''<LineStyle>\<newline>'' @
     tabs 3 @ ''<color>FFFF0000</color>\<newline>'' @
     tabs 3 @ ''<width>1</width>\<newline>'' @
     tabs 2 @ ''</LineStyle>\<newline>'' @
     tabs 2 @ ''<PolyStyle>\<newline>'' @
     tabs 3 @ ''<color>00FFFFFF</color>\<newline>'' @
     tabs 2 @ ''</PolyStyle>\<newline>'' @
     tabs 1 @ ''</Style>\<newline>''"

definition style_Flight :: string where
  "style_Flight =
     tabs 1 @ ''<Style id='' @ dq @ ''Flight'' @ dq @ ''>\<newline>'' @
     tabs 2 @ ''<IconStyle>\<newline>'' @
     tabs 3 @ ''<color>FFFFD600</color>\<newline>'' @
     tabs 3 @ ''<scale>1.3</scale>\<newline>'' @
     tabs 3 @ ''<Icon>\<newline>'' @
     tabs 4 @ ''<href>http://maps.google.com/mapfiles/kml/shapes/shaded_dot.png</href>\<newline>'' @
     tabs 3 @ ''</Icon>\<newline>'' @
     tabs 2 @ ''</IconStyle>\<newline>'' @
     tabs 1 @ ''</Style>\<newline>''"

text \<open>\<^verbatim>\<open>str(v)\<close> on a property value, and the dictionary read \<^verbatim>\<open>d[k]\<close>.\<close>

definition str_pval :: "env \<Rightarrow> pval \<Rightarrow> string" where
  "str_pval env v =
     (case v of
        PStr s \<Rightarrow> s
      | PNum x \<Rightarrow> str_num env x
      | PBool b \<Rightarrow> (if b then ''True'' else ''False'')
      | PNull \<Rightarrow> ''None'')"

definition dict_get :: "(string \<times> pval) list \<Rightarrow> string \<Rightarrow> exn + pval" where
  "dict_get d k = (case map_of d k of None \<Rightarrow> Inl KeyError | Some v \<Rightarrow> Inr v)"

text \<open>Section 2.4.3: one \<^verbatim>\<open>Data\<close> entry per key of the dictionary.\<close>

definition extended_data :: "env \<Rightarrow> (string \<times> pval) list \<Rightarrow> string" where
  "extended_data env d =
     concat (map (\<lambda>data.
                    tabs 3 @ ''<Data name='' @ dq @ data @ dq @ ''>\<newline>'' @
                    tabs 4 @ ''<value>'' @
                      (case map_of d data of Some v \<Rightarrow> str_pval env v | None \<Rightarrow> []) @
                      ''</value>\<newline>'' @
                    tabs 3 @ ''</Data>\<newline>'')
                 (map fst d))"

text \<open>Section 2.4.4: the border points, \<^verbatim>\<open>str(polygon[0]) + "," + str(polygon[1]) + ",0 "\<close>
  each; a point with fewer than two numbers raises.\<close>

fun border_points :: "env \<Rightarrow> real list list \<Rightarrow> exn + string" where
  "border_points env [] = Inr []"
| "border_points env (polygon # ps) =
     (case getitem polygon 0 of
        Inl e \<Rightarrow> Inl e
      | Inr x \<Rightarrow>
     (case getitem polygon 1 of
        Inl e \<Rightarrow> Inl e
      | Inr y \<Rightarrow>
     (case border_points env ps of
        Inl e \<Rightarrow> Inl e
      | Inr rest \<Rightarrow> Inr (str_num env x @ '','' @ str_num env y @ '',0 '' @ rest))))"

text \<open>Sections 2.4.1 to 2.4.5: the text of one FIR placemark. The name is concatenated
  without \<^verbatim>\<open>str\<close>, so a missing \<^verbatim>\<open>FIRname\<close> is a \<^verbatim>\<open>KeyError\<close> and one that is not a
  string a \<^verbatim>\<open>TypeError\<close>.\<close>

definition fir_placemark :: "env \<Rightarrow> real list list \<Rightarrow> (string \<times> pval) list \<Rightarrow> exn + string" where
  "fir_placemark env ring d =
     (case dict_get d ''FIRname'' of
        Inl e \<Rightarrow> Inl e
      | Inr (PStr firname) \<Rightarrow>
          (case border_points env ring of
             Inl e \<Rightarrow> Inl e
           | Inr points \<Rightarrow>
               Inr (tabs 1 @ ''<Placemark>\<newline>'' @
                    tabs 2 @ ''<name>'' @ firname @ ''</name>\<newline>'' @
                    tabs 2 @ ''<styleUrl>#FIR</styleUrl>\<newline>'' @
                    tabs 2 @ ''<ExtendedData>\<newline>'' @
                    extended_data env d @
                    tabs 2 @ ''</ExtendedData>\<newline>'' @
                    tabs 2 @ ''<Polygon>\<newline>'' @
                    tabs 3 @ ''<outerBoundaryIs>\<newline>'' @
                    tabs 4 @ ''<LinearRing>\<newline>'' @
                    tabs 5 @ ''<coordinates>\<newline>'' @
                    tabs 6 @ points @
                    ''\<newline>'' @ tabs 5 @ ''</coordinates>\<newline>'' @
                    tabs 4 @ ''</LinearRing>\<newline>'' @
                    tabs 3 @ ''</outerBoundaryIs>\<newline>'' @
                    tabs 2 @ ''</Polygon>\<newline>'' @
                    tabs 1 @ ''</Placemark>\<newline>''))
      | Inr _ \<Rightarrow> Inl TypeError)"

text \<open>Section 2.4: the loop over the FIRs. Each placemark is written once it is
  complete; when one raises, the file keeps what the earlier ones wrote. The result is
  the text of the file and the exception, if any.\<close>

fun fir_data ::
  "env \<Rightarrow> real list list list \<Rightarrow> (string \<times> pval) list list \<Rightarrow> string \<Rightarrow> string \<times> exn option" where
  "fir_data env (ring # polygons) (d # names) kml_file =
     (case fir_placemark env ring d of
        Inl e \<Rightarrow> (kml_file, Some e)
      | Inr kml_text \<Rightarrow> fir_data env polygons names (fst (writeKML kml_file kml_text)))"
| "fir_data env _ _ kml_file = (kml_file, None)"

text \<open>The body of the loop of section 2.5.2 of the overlay script, up to the flag.\<close>

definition flight_accepted_kml ::
  "env \<Rightarrow> bool \<Rightarrow> int \<Rightarrow> real \<times> real \<Rightarrow> real \<times> real \<Rightarrow> bool" where
  "flight_accepted_kml env radius_in_mn sat_radius sat_pos flight_pos =
     (if radius_in_mn \<and> nm (great_circle env sat_pos flight_pos) < of_int sat_radius then True
      else if km (great_circle env sat_pos flight_pos) < of_int sat_radius then True
      else False)"

text \<open>The text of one flight placemark: \<^verbatim>\<open>flight_pos\<close> is \<^verbatim>\<open>[latitude, longitude]\<close>, and
  the coordinates are \<^verbatim>\<open>str(flight_pos[1]) + ',' + str(flight_pos[0]) + ',0</coordinates>s\n'\<close>.\<close>

definition point_coordinates :: "env \<Rightarrow> real \<times> real \<Rightarrow> string" where
  "point_coordinates env flight_pos =
     tabs 3 @ ''<coordinates>'' @
     str_num env (snd flight_pos) @ '','' @
     str_num env (fst flight_pos) @ '',0</coordinates>s\<newline>''"

definition flight_placemark :: "env \<Rightarrow> real \<times> real \<Rightarrow> string" where
  "flight_placemark env flight_pos =
     tabs 1 @ ''<Placemark>\<newline>'' @
     tabs 2 @ ''<styleUrl>#Flight</styleUrl>\<newline>'' @
     tabs 2 @ ''<Point>\<newline>'' @
     point_coordinates env flight_pos @
     tabs 2 @ ''</Point>\<newline>'' @
     tabs 1 @ ''</Placemark>\<newline>''"

text \<open>Section 2.5.2: the loop over \<^verbatim>\<open>range(len(flights_lat))\<close>; an accepted flight is
  written to the file at once.\<close>

definition flight_data ::
  "env \<Rightarrow> bool \<Rightarrow> int \<Rightarrow> real \<Rightarrow> real \<Rightarrow> real list \<Rightarrow> real list \<Rightarrow> string \<Rightarrow> string" where
  "flight_data env radius_in_mn sat_radius sat_lat sat_lon flights_lat flights_lon kml_file =
     fold (\<lambda>index kml_file.
             if flight_accepted_kml env radius_in_mn sat_radius
                  (sat_lat, sat_lon) (flights_lat ! index, flights_lon ! index)
             then fst (writeKML kml_file
                         (flight_placemark env (flights_lat ! index, flights_lon ! index)))
             else kml_file)
          [0 ..< length flights_lat] kml_file"

definition kml_closing :: string where
  "kml_closing = ''</Document>\<newline>'' @ ''</kml>\<newline>''"

text \<open>Sections 1.2 to 2.6, for arguments that have passed the checks. The output file
  is opened after both inputs are loaded (opening is taken to succeed).\<close>

definition kml_creation ::
  "env \<Rightarrow> string list \<Rightarrow> string list \<Rightarrow> string \<Rightarrow> bool \<Rightarrow> int \<Rightarrow> real \<Rightarrow> real \<Rightarrow> outcome" where
  "kml_creation env argv out sat_time radius_in_mn sat_radius sat_lat sat_lon =
     (let out1 = out @ [''\<newline>Loading geojson file...''] in
      case getFIRs (pygeoj_load env (argv ! 1)) of
        Inl e \<Rightarrow> \<lparr>stdout = out1, loaded = [argv ! 1], out_file = None, raised = Some e\<rparr>
      | Inr (polygons, names) \<Rightarrow>
          (let flights_file = argv ! 2;
               flights_df = read_csv env flights_file;
               out2 = out1 @ [''\<newline>Loading csv file...'', ''\<newline>Starting KML file creation...''];
               path = ''./'' @ argv ! 3;
               kml_file = fst (writeKML [] (kml_initial (argv ! 3)));
               kml_file = fst (writeKML kml_file style_FIR);
               kml_file = fst (writeKML kml_file style_Flight)
           in case fir_data env polygons names kml_file of
                (kml_file, Some e) \<Rightarrow>
                  \<lparr>stdout = out2, loaded = [argv ! 1, flights_file],
                   out_file = Some (path, kml_file), raised = Some e\<rparr>
              | (kml_file, None) \<Rightarrow>
                  (let filtered = filtered_df flights_df sat_time;
                       flights_lat = map latitude filtered;
                       flights_lon = map longitude filtered;
                       kml_file = flight_data env radius_in_mn sat_radius sat_lat sat_lon
                                    flights_lat flights_lon kml_file;
                       kml_file = fst (writeKML kml_file kml_closing)
                   in \<lparr>stdout = out2, loaded = [argv ! 1, flights_file],
                       out_file = Some (path, kml_file), raised = None\<rparr>)))"

definition flights_within_satcov_kml :: "env \<Rightarrow> string list \<Rightarrow> outcome" where
  "flights_within_satcov_kml env argv =
     (case arguments_filtering 12 help_manual_kml argv of
        Some out \<Rightarrow> stop out SystemExit
      | None \<Rightarrow>
     (case numerical_values env argv of
        Inl ValueError \<Rightarrow>
          stop [''\<newline>ERROR: Incorrect argument values\<newline>'', help_manual_kml] SystemExit
      | Inl e \<Rightarrow> stop [] e
      | Inr (sat_lat, sat_lon, sat_radius) \<Rightarrow>
     (case arg_after argv ''-time'' of
        Inl e \<Rightarrow> stop [] e
      | Inr sat_time \<Rightarrow>
     (case incorrect_time_format sat_time of
        Inl e \<Rightarrow> stop [] e
      | Inr True \<Rightarrow>
          stop [''\<newline>ERROR: Incorrect time format\<newline>'', help_manual_kml] SystemExit
      | Inr False \<Rightarrow>
     (case geojson_check env (argv ! 1) of
        Some out \<Rightarrow> stop out SystemExit
      | None \<Rightarrow>
     (case csv_check env (argv ! 2) of
        Some out \<Rightarrow> stop out SystemExit
      | None \<Rightarrow>
          (let out = (if startswith (argv ! 3) ''-''
                      then [''\<newline>ERROR: output name is not valid'',
                            ''Please, introduce a valid name'']
                      else []);
               radius_in_mn = (''-km'' \<notin> set argv)
           in kml_creation env argv
                (out @ user_information env sat_time sat_radius radius_in_mn sat_lat sat_lon)
                sat_time radius_in_mn sat_radius sat_lat sat_lon)))))))"

section \<open>The properties of the specification, in its own words\<close>

text \<open>Specification 4.1 and 4.3: the distance in the selected unit, and the coverage
  test \<open>d < radius\<close> on a record.\<close>

definition selected_distance :: "env \<Rightarrow> bool \<Rightarrow> real \<times> real \<Rightarrow> real \<times> real \<Rightarrow> real" where
  "selected_distance env radius_in_mn a b =
     (if radius_in_mn then nm (great_circle env a b) else km (great_circle env a b))"

definition within_coverage :: "env \<Rightarrow> bool \<Rightarrow> int \<Rightarrow> real \<times> real \<Rightarrow> flight \<Rightarrow> bool" where
  "within_coverage env radius_in_mn radius center row =
     (selected_distance env radius_in_mn center (latitude row, longitude row) < of_int radius)"

text \<open>Reading a marker entry back: the text between the first \<^verbatim>\<open><coordinates>\<close> and the
  next \<^verbatim>\<open></coordinates>\<close>, split at the commas into longitude, latitude and altitude (the
  order of the overlay format), and the two numbers read with \<^verbatim>\<open>float\<close>.\<close>

fun after_tag :: "string \<Rightarrow> string \<Rightarrow> string option" where
  "after_tag tag [] = (if tag = [] then Some [] else None)"
| "after_tag tag (c # cs) =
     (if startswith (c # cs) tag then Some (drop (length tag) (c # cs))
      else after_tag tag cs)"

fun before_tag :: "string \<Rightarrow> string \<Rightarrow> string option" where
  "before_tag tag [] = (if tag = [] then Some [] else None)"
| "before_tag tag (c # cs) =
     (if startswith (c # cs) tag then Some []
      else map_option ((#) c) (before_tag tag cs))"

definition marker_position :: "string \<Rightarrow> (string \<times> string \<times> string) option" where
  "marker_position entry =
     (case after_tag ''<coordinates>'' entry of
        None \<Rightarrow> None
      | Some rest \<Rightarrow>
     (case before_tag ''</coordinates>'' rest of
        None \<Rightarrow> None
      | Some body \<Rightarrow>
     (case split (CHR '','') body of
        [lon, lat, alt] \<Rightarrow> Some (lon, lat, alt)
      | _ \<Rightarrow> None)))"

definition read_marker :: "env \<Rightarrow> string \<Rightarrow> (real \<times> real) option" where
  "read_marker env entry =
     (case marker_position entry of
        None \<Rightarrow> None
      | Some (lon, lat, alt) \<Rightarrow>
     (case py_float env lat of
        None \<Rightarrow> None
      | Some la \<Rightarrow>
     (case py_float env lon of
        None \<Rightarrow> None
      | Some lo \<Rightarrow> Some (la, lo))))"

text \<open>A number survives printing and reading: \<^verbatim>\<open>float(str(x)) == x\<close>, and its text has
  neither a comma nor an angle bracket.\<close>

definition readable :: "env \<Rightarrow> real \<Rightarrow> bool" where
  "readable env x =
     (py_float env (str_num env x) = Some x \<and>
      CHR '','' \<notin> set (str_num env x) \<and> CHR ''<'' \<notin> set (str_num env x))"

section \<open>Collaborators and inputs for concrete runs\<close>

text \<open>A stand-in for the collaborators, enough to run the scripts: \<^verbatim>\<open>float\<close> reads
  the texts of whole numbers (digits after an optional minus, with or without a final
  \<^verbatim>\<open>.0\<close>), \<^verbatim>\<open>str\<close> prints whole numbers as Python prints a float, the two input
  files exist, and the distance between two points is the sum of the differences of
  their coordinates in nautical miles, with \<open>1.852\<close> kilometres to the nautical mile.\<close>

definition demo_flights :: "flight list" where
  "demo_flights =
     [\<lparr>time_instant = ''12:00:00'', latitude = 0, longitude = 9\<rparr>,
      \<lparr>time_instant = ''12:00:00'', latitude = 0, longitude = 10\<rparr>,
      \<lparr>time_instant = ''12:30:99'', latitude = 10, longitude = 20\<rparr>,
      \<lparr>time_instant = ''12:00:00'', latitude = 0, longitude = 11\<rparr>]"

definition demo_features :: "feature list" where
  "demo_features =
     [\<lparr>coordinates = [[[0, 0], [1, 0], [1, 1], [0, 1]]],
       properties = [(''FIRname'', PStr ''TEST'')]\<rparr>]"

definition demo_float :: "string \<Rightarrow> real option" where
  "demo_float s =
     (let t = (if drop (length s - 2) s = ''.0'' then take (length s - 2) s else s)
      in if list_all (\<lambda>c. isdigit c \<or> c = CHR ''-'') t
         then map_option of_int (py_int t) else None)"

definition demo_env :: env where
  "demo_env =
     \<lparr>py_float = demo_float,
      str_num = (\<lambda>x. str_int \<lfloor>x\<rfloor> @ ''.0''),
      isfile = (\<lambda>p. p = ''firs.geojson'' \<or> p = ''flights.csv''),
      read_csv = (\<lambda>p. demo_flights),
      pygeoj_load = (\<lambda>p. demo_features),
      great_circle = (\<lambda>a b.
        \<lparr>km = 1852 * (\<bar>fst a - fst b\<bar> + \<bar>snd a - snd b\<bar>) / 1000,
         nm = \<bar>fst a - fst b\<bar> + \<bar>snd a - snd b\<bar>\<rparr>)\<rparr>"

text \<open>Command lines for the two scripts (\<^verbatim>\<open>sys.argv\<close>, the script name first), a
  boundary file whose only feature has a ring and a \<^verbatim>\<open>name\<close> but no \<^verbatim>\<open>FIRname\<close>, one
  whose only feature has no ring, and the stand-in collaborators reading such a file.\<close>

definition argv_filter :: "string \<Rightarrow> string \<Rightarrow> string list" where
  "argv_filter sat_time sat_radius =
     [''flights_one_sat_filter.py'', ''flights.csv'',
      ''-lat'', ''10'', ''-lon'', ''20'', ''-time'', sat_time, ''-rad'', sat_radius]"

definition argv_kml :: "string \<Rightarrow> string list" where
  "argv_kml output_name =
     [''flights_within_satcov_kml.py'', ''firs.geojson'', ''flights.csv'', output_name,
      ''-lat'', ''0'', ''-lon'', ''0'', ''-time'', ''12:00:00'', ''-rad'', ''10'']"

definition unlabelled_features :: "feature list" where
  "unlabelled_features =
     [\<lparr>coordinates = [[[0, 0], [1, 0], [1, 1], [0, 1]]],
       properties = [(''name'', PStr ''TEST'')]\<rparr>]"

definition ringless_features :: "feature list" where
  "ringless_features =
     [\<lparr>coordinates = [], properties = [(''FIRname'', PStr ''TEST'')]\<rparr>]"

definition with_features :: "feature list \<Rightarrow> env" where
  "with_features fs = demo_env\<lparr>pygeoj_load := (\<lambda>p. fs)\<rparr>"

section \<open>The loops as list functions\<close>

lemma fold_range_rows:
  "fold (\<lambda>i. g (map f1 rows ! i) (map f2 rows ! i)) [0 ..< length rows] a
     = fold (\<lambda>row. g (f1 row) (f2 row)) rows a"
proof -
  have "fold (\<lambda>i. g (map f1 rows ! i) (map f2 rows ! i)) [0 ..< length rows] a
      = fold ((\<lambda>row. g (f1 row) (f2 row)) \<circ> (\<lambda>i. rows ! i)) [0 ..< length rows] a"
    by (rule fold_cong) auto
  also have "\<dots> = fold (\<lambda>row. g (f1 row) (f2 row)) (map (\<lambda>i. rows ! i) [0 ..< length rows]) a"
    by (simp add: fold_map)
  also have "map (\<lambda>i. rows ! i) [0 ..< length rows] = rows"
    by (rule map_nth)
  finally show ?thesis .
qed

lemma fold_count_filter:
  "fold (\<lambda>row count. if P row then count + 1 else count) rows (n::nat)
     = n + length (filter P rows)"
  by (induction rows arbitrary: n) auto

lemma fold_write_filter:
  "fold (\<lambda>row kml_file. if P row then fst (writeKML kml_file (t row)) else kml_file) rows f
     = f @ concat (map t (filter P rows))"
  by (induction rows arbitrary: f) (auto simp: writeKML_def)

lemma aircraft_count_rows:
  "aircraft_count env radius_in_mn sat_radius sat_lat sat_lon (map latitude rows) (map longitude rows)
     = length (filter (\<lambda>row. flight_accepted_filter env radius_in_mn sat_radius
                               (sat_lat, sat_lon) (latitude row, longitude row)) rows)"
  unfolding aircraft_count_def
  using fold_range_rows [of "\<lambda>la lo count. if flight_accepted_filter env radius_in_mn sat_radius
                  (sat_lat, sat_lon) (la, lo) then count + 1 else count" latitude rows longitude "0::nat"]
  by (simp add: fold_count_filter)

lemma flight_data_rows:
  "flight_data env radius_in_mn sat_radius sat_lat sat_lon (map latitude rows) (map longitude rows) kml_file
     = kml_file @ concat (map (\<lambda>row. flight_placemark env (latitude row, longitude row))
         (filter (\<lambda>row. flight_accepted_kml env radius_in_mn sat_radius
                               (sat_lat, sat_lon) (latitude row, longitude row)) rows))"
  unfolding flight_data_def
  using fold_range_rows [of "\<lambda>la lo kml_file. if flight_accepted_kml env radius_in_mn sat_radius
                  (sat_lat, sat_lon) (la, lo) then fst (writeKML kml_file (flight_placemark env (la, lo))) else kml_file" latitude rows longitude kml_file]
  by (simp add: fold_write_filter)

lemma boolean_index_filter:
  "boolean_index rows (map P rows) = filter P rows"
  by (induction rows) auto

lemma filtered_df_filter:
  "filtered_df rows t = filter (\<lambda>row. time_instant row = t) rows"
  by (simp add: filtered_df_def boolean_index_filter)

lemma accepted_filter_iff:
  assumes "nm (great_circle env c p) \<le> km (great_circle env c p)"
  shows "flight_accepted_filter env u r c p \<longleftrightarrow> selected_distance env u c p < of_int r"
  using assms by (auto simp: flight_accepted_filter_def selected_distance_def)

lemma accepted_kml_iff:
  assumes "nm (great_circle env c p) \<le> km (great_circle env c p)"
  shows "flight_accepted_kml env u r c p \<longleftrightarrow> selected_distance env u c p < of_int r"
  using assms by (auto simp: flight_accepted_kml_def selected_distance_def)

lemma demo_gc:
  "great_circle demo_env a b =
     \<lparr>km = 1852 * (\<bar>fst a - fst b\<bar> + \<bar>snd a - snd b\<bar>) / 1000,
      nm = \<bar>fst a - fst b\<bar> + \<bar>snd a - snd b\<bar>\<rparr>"
  by (simp add: demo_env_def)

lemma demo_slice:
  "filtered_df demo_flights ''12:00:00'' =
     [\<lparr>time_instant = ''12:00:00'', latitude = 0, longitude = 9\<rparr>,
      \<lparr>time_instant = ''12:00:00'', latitude = 0, longitude = 10\<rparr>,
      \<lparr>time_instant = ''12:00:00'', latitude = 0, longitude = 11\<rparr>]"
  by (simp add: filtered_df_def demo_flights_def)

section \<open>The coverage test\<close>

text \<open>
  Claim C1. The distance object of the library reads at least as many kilometres as
  nautical miles (a distance is not negative and a nautical mile is 1.852 km). Then, for
  every slice, centre, integer radius and unit, both scripts accept a record exactly when
  its distance from the centre in the selected unit is strictly less than the radius: the
  filter script counts these records and the overlay script writes a marker for each of
  them, in order. A record at exactly the radius is rejected in both units; in nautical
  miles the \<^verbatim>\<open>elif\<close> on kilometres is evaluated as well and rejects it too.
\<close>

theorem coverage_test_strict:
  assumes "\<forall>row \<in> set slice.
             nm (great_circle env (sat_lat, sat_lon) (latitude row, longitude row))
               \<le> km (great_circle env (sat_lat, sat_lon) (latitude row, longitude row))"
  shows "aircraft_count env radius_in_mn sat_radius sat_lat sat_lon
           (map latitude slice) (map longitude slice)
         = length (filter (within_coverage env radius_in_mn sat_radius (sat_lat, sat_lon)) slice)
       \<and> flight_data env radius_in_mn sat_radius sat_lat sat_lon
           (map latitude slice) (map longitude slice) kml_file
         = kml_file @ concat (map (\<lambda>row. flight_placemark env (latitude row, longitude row))
             (filter (within_coverage env radius_in_mn sat_radius (sat_lat, sat_lon)) slice))
       \<and> (\<forall>row \<in> set slice.
            (flight_accepted_filter env radius_in_mn sat_radius
                (sat_lat, sat_lon) (latitude row, longitude row)
             \<longleftrightarrow> within_coverage env radius_in_mn sat_radius (sat_lat, sat_lon) row) \<and>
            (flight_accepted_kml env radius_in_mn sat_radius
                (sat_lat, sat_lon) (latitude row, longitude row)
             \<longleftrightarrow> within_coverage env radius_in_mn sat_radius (sat_lat, sat_lon) row) \<and>
            (selected_distance env radius_in_mn (sat_lat, sat_lon) (latitude row, longitude row)
               = of_int sat_radius \<longrightarrow>
             \<not> flight_accepted_filter env radius_in_mn sat_radius
                 (sat_lat, sat_lon) (latitude row, longitude row) \<and>
             \<not> flight_accepted_kml env radius_in_mn sat_radius
                 (sat_lat, sat_lon) (latitude row, longitude row)))"
proof -
  have f: "filter (\<lambda>row. flight_accepted_filter env radius_in_mn sat_radius
                     (sat_lat, sat_lon) (latitude row, longitude row)) slice
         = filter (within_coverage env radius_in_mn sat_radius (sat_lat, sat_lon)) slice"
    using assms by (intro filter_cong refl) (simp add: accepted_filter_iff within_coverage_def)
  have k: "filter (\<lambda>row. flight_accepted_kml env radius_in_mn sat_radius
                     (sat_lat, sat_lon) (latitude row, longitude row)) slice
         = filter (within_coverage env radius_in_mn sat_radius (sat_lat, sat_lon)) slice"
    using assms by (intro filter_cong refl) (simp add: accepted_kml_iff within_coverage_def)
  have b: "\<forall>row \<in> set slice.
            (flight_accepted_filter env radius_in_mn sat_radius
                (sat_lat, sat_lon) (latitude row, longitude row)
             \<longleftrightarrow> within_coverage env radius_in_mn sat_radius (sat_lat, sat_lon) row) \<and>
            (flight_accepted_kml env radius_in_mn sat_radius
                (sat_lat, sat_lon) (latitude row, longitude row)
             \<longleftrightarrow> within_coverage env radius_in_mn sat_radius (sat_lat, sat_lon) row) \<and>
            (selected_distance env radius_in_mn (sat_lat, sat_lon) (latitude row, longitude row)
               = of_int sat_radius \<longrightarrow>
             \<not> flight_accepted_filter env radius_in_mn sat_radius
                 (sat_lat, sat_lon) (latitude row, longitude row) \<and>
             \<not> flight_accepted_kml env radius_in_mn sat_radius
                 (sat_lat, sat_lon) (latitude row, longitude row))"
    using assms by (simp add: accepted_filter_iff accepted_kml_iff within_coverage_def)
  have c: "aircraft_count env radius_in_mn sat_radius sat_lat sat_lon
             (map latitude slice) (map longitude slice)
           = length (filter (within_coverage env radius_in_mn sat_radius (sat_lat, sat_lon)) slice)"
    by (simp add: aircraft_count_rows f)
  have d: "flight_data env radius_in_mn sat_radius sat_lat sat_lon
             (map latitude slice) (map longitude slice) kml_file
           = kml_file @ concat (map (\<lambda>row. flight_placemark env (latitude row, longitude row))
               (filter (within_coverage env radius_in_mn sat_radius (sat_lat, sat_lon)) slice))"
    by (simp add: flight_data_rows k)
  from c d b show ?thesis
    by (intro conjI)
qed

theorem coverage_test_strict_witness:
  "list_all (\<lambda>row.
       nm (great_circle demo_env (0, 0) (latitude row, longitude row))
         \<le> km (great_circle demo_env (0, 0) (latitude row, longitude row)))
     (filtered_df demo_flights ''12:00:00'')
   \<and> aircraft_count demo_env True 10 0 0
        (map latitude (filtered_df demo_flights ''12:00:00''))
        (map longitude (filtered_df demo_flights ''12:00:00'')) = 1
   \<and> \<not> flight_accepted_filter demo_env True 10 (0, 0) (0, 10)
   \<and> \<not> flight_accepted_kml demo_env True 10 (0, 0) (0, 10)"
proof -
  have h: "\<forall>row \<in> set (filtered_df demo_flights ''12:00:00'').
       nm (great_circle demo_env (0, 0) (latitude row, longitude row))
         \<le> km (great_circle demo_env (0, 0) (latitude row, longitude row))"
    by (simp add: demo_gc)
  show ?thesis
    using h coverage_test_strict [OF h, of True 10 "[]"]
    by (simp add: demo_slice within_coverage_def selected_distance_def demo_gc list_all_iff)
qed

section \<open>The time slice\<close>

text \<open>
  Claim C8. The time slice is the list of the rows whose time instant equals the
  requested one, in the order of the table. Hence the slices of two distinct instants
  share no row, every row of the table is in the slice of some instant, and an empty
  slice gives a count of zero and leaves the overlay document without any marker.
\<close>

theorem time_slice_exact:
  "filtered_df flights_df sat_time = filter (\<lambda>row. time_instant row = sat_time) flights_df
   \<and> (t1 \<noteq> t2 \<longrightarrow> set (filtered_df flights_df t1) \<inter> set (filtered_df flights_df t2) = {})
   \<and> (\<Union>t. set (filtered_df flights_df t)) = set flights_df
   \<and> (filtered_df flights_df sat_time = [] \<longrightarrow>
        aircraft_count env radius_in_mn sat_radius sat_lat sat_lon
          (map latitude (filtered_df flights_df sat_time))
          (map longitude (filtered_df flights_df sat_time)) = 0
        \<and> flight_data env radius_in_mn sat_radius sat_lat sat_lon
          (map latitude (filtered_df flights_df sat_time))
          (map longitude (filtered_df flights_df sat_time)) kml_file = kml_file)"
proof (intro conjI impI)
  show "filtered_df flights_df sat_time = filter (\<lambda>row. time_instant row = sat_time) flights_df"
    by (rule filtered_df_filter)
next
  assume "t1 \<noteq> t2"
  then show "set (filtered_df flights_df t1) \<inter> set (filtered_df flights_df t2) = {}"
    by (auto simp: filtered_df_filter)
next
  show "(\<Union>t. set (filtered_df flights_df t)) = set flights_df"
    by (auto simp: filtered_df_filter)
next
  assume e: "filtered_df flights_df sat_time = []"
  show "aircraft_count env radius_in_mn sat_radius sat_lat sat_lon
          (map latitude (filtered_df flights_df sat_time))
          (map longitude (filtered_df flights_df sat_time)) = 0"
    by (simp add: e aircraft_count_def)
  show "flight_data env radius_in_mn sat_radius sat_lat sat_lon
          (map latitude (filtered_df flights_df sat_time))
          (map longitude (filtered_df flights_df sat_time)) kml_file = kml_file"
    by (simp add: e flight_data_def)
qed

theorem time_slice_exact_witness:
  "''12:00:00'' \<noteq> ''12:30:99''
   \<and> set (filtered_df demo_flights ''12:00:00'') \<inter> set (filtered_df demo_flights ''12:30:99'') = {}
   \<and> filtered_df demo_flights ''12:30:99'' =
        [\<lparr>time_instant = ''12:30:99'', latitude = 10, longitude = 20\<rparr>]
   \<and> filtered_df demo_flights ''09:00:00'' = []
   \<and> aircraft_count demo_env True 10 0 0
        (map latitude (filtered_df demo_flights ''09:00:00''))
        (map longitude (filtered_df demo_flights ''09:00:00'')) = 0
   \<and> flight_data demo_env True 10 0 0
        (map latitude (filtered_df demo_flights ''09:00:00''))
        (map longitude (filtered_df demo_flights ''09:00:00'')) ''<Document>'' = ''<Document>''"
proof -
  have d: "''12:00:00'' \<noteq> ''12:30:99''" by simp
  have e: "filtered_df demo_flights ''09:00:00'' = []"
    by (simp add: filtered_df_def demo_flights_def)
  have s: "filtered_df demo_flights ''12:30:99'' =
        [\<lparr>time_instant = ''12:30:99'', latitude = 10, longitude = 20\<rparr>]"
    by (simp add: filtered_df_def demo_flights_def)
  note t = time_slice_exact [of demo_flights "''09:00:00''" "''12:00:00''" "''12:30:99''"
              demo_env True 10 0 0 "''<Document>''"]
  from t d e s show ?thesis by blast
qed

section \<open>The two scripts accept the same records\<close>

text \<open>
  Claim C10. On the same slice, centre, radius and unit, the loop of the filter script
  and the loop of the overlay script accept the same records: the overlay script appends
  to the document one flight placemark for each accepted record, in order, and the count
  of the filter script is the number of these placemarks.
\<close>

theorem scripts_accept_same_records:
  "filter (\<lambda>row. flight_accepted_filter env radius_in_mn sat_radius
                    (sat_lat, sat_lon) (latitude row, longitude row)) slice
   = filter (\<lambda>row. flight_accepted_kml env radius_in_mn sat_radius
                    (sat_lat, sat_lon) (latitude row, longitude row)) slice
   \<and> flight_data env radius_in_mn sat_radius sat_lat sat_lon
       (map latitude slice) (map longitude slice) kml_file
     = kml_file @ concat (map (\<lambda>row. flight_placemark env (latitude row, longitude row))
         (filter (\<lambda>row. flight_accepted_kml env radius_in_mn sat_radius
                    (sat_lat, sat_lon) (latitude row, longitude row)) slice))
   \<and> aircraft_count env radius_in_mn sat_radius sat_lat sat_lon
       (map latitude slice) (map longitude slice)
     = length (filter (\<lambda>row. flight_accepted_kml env radius_in_mn sat_radius
                    (sat_lat, sat_lon) (latitude row, longitude row)) slice)"
proof -
  have same: "flight_accepted_filter env radius_in_mn sat_radius c p
            = flight_accepted_kml env radius_in_mn sat_radius c p" for c p
    by (simp add: flight_accepted_filter_def flight_accepted_kml_def)
  show ?thesis
    by (simp add: same aircraft_count_rows flight_data_rows)
qed

section \<open>The flight markers\<close>

lemma split_append: "sep \<notin> set a \<Longrightarrow> split sep (a @ sep # b) = a # split sep b"
  by (induction a) auto

lemma before_tag_skip:
  "c \<notin> set a \<Longrightarrow>
   before_tag (c # tag) (a @ rest) = map_option ((@) a) (before_tag (c # tag) rest)"
proof (induction a)
  case Nil
  show ?case by (cases "before_tag (c # tag) rest") simp_all
next
  case (Cons x a)
  then show ?case by (cases "before_tag (c # tag) rest") (auto simp: startswith_def)
qed

lemma after_tag_placemark:
  "after_tag ''<coordinates>'' (flight_placemark env (lat, lon)) =
     Some (str_num env lon @ '','' @ str_num env lat @ '',0</coordinates>s\<newline>'' @
           tabs 2 @ ''</Point>\<newline>'' @ tabs 1 @ ''</Placemark>\<newline>'')"
  by (simp add: flight_placemark_def point_coordinates_def tabs_def startswith_def eval_nat_numeral)

lemma marker_position_placemark:
  assumes "CHR '','' \<notin> set (str_num env lat)" "CHR ''<'' \<notin> set (str_num env lat)"
      "CHR '','' \<notin> set (str_num env lon)" "CHR ''<'' \<notin> set (str_num env lon)"
  shows "marker_position (flight_placemark env (lat, lon))
         = Some (str_num env lon, str_num env lat, ''0'')"
proof -
  have b: "before_tag ''</coordinates>''
             (str_num env lon @ '','' @ str_num env lat @ '',0</coordinates>s\<newline>'' @
              tabs 2 @ ''</Point>\<newline>'' @ tabs 1 @ ''</Placemark>\<newline>'')
        = Some (str_num env lon @ '','' @ str_num env lat @ '',0'')"
    using assms(2,4)
    by (simp add: before_tag_skip startswith_def)
  have s: "split (CHR '','') (str_num env lon @ '','' @ str_num env lat @ '',0'')
         = [str_num env lon, str_num env lat, ''0'']"
    using assms(1,3) by (simp add: split_append)
  show ?thesis
    by (simp only: marker_position_def after_tag_placemark option.case b s list.case)
qed

lemma read_marker_placemark:
  assumes "readable env lat" "readable env lon"
  shows "marker_position (flight_placemark env (lat, lon))
           = Some (str_num env lon, str_num env lat, ''0'')
       \<and> read_marker env (flight_placemark env (lat, lon)) = Some (lat, lon)"
proof -
  have m: "marker_position (flight_placemark env (lat, lon))
           = Some (str_num env lon, str_num env lat, ''0'')"
    using assms by (intro marker_position_placemark) (simp_all add: readable_def)
  have "read_marker env (flight_placemark env (lat, lon)) = Some (lat, lon)"
    using assms by (simp add: read_marker_def m readable_def)
  with m show ?thesis by simp
qed

lemma demo_readable: "readable demo_env 10 \<and> readable demo_env 20"
  by (simp add: readable_def demo_env_def demo_float_def str_int_def str_nat.simps py_int_def strip_def
                isspace_def isdigit_def decimal_def digit_val_def)

text \<open>
  Claim C3. When the numbers of a slice survive printing and reading (and their text has
  no comma and no angle bracket), the overlay script writes, for every accepted record,
  a placemark whose coordinates are the record's longitude, then its latitude, then 0:
  reading the placemark back gives the record's (latitude, longitude) pair.
\<close>

theorem marker_coordinate_order:
  assumes "\<forall>row \<in> set slice. readable env (latitude row) \<and> readable env (longitude row)"
  shows "flight_data env radius_in_mn sat_radius sat_lat sat_lon
           (map latitude slice) (map longitude slice) kml_file
         = kml_file @ concat (map (\<lambda>row. flight_placemark env (latitude row, longitude row))
             (filter (\<lambda>row. flight_accepted_kml env radius_in_mn sat_radius
                        (sat_lat, sat_lon) (latitude row, longitude row)) slice))
       \<and> (\<forall>row \<in> set slice.
            marker_position (flight_placemark env (latitude row, longitude row))
              = Some (str_num env (longitude row), str_num env (latitude row), ''0'')
            \<and> read_marker env (flight_placemark env (latitude row, longitude row))
              = Some (latitude row, longitude row))"
  using assms by (simp add: flight_data_rows read_marker_placemark)

theorem marker_coordinate_order_witness:
  "list_all (\<lambda>row. readable demo_env (latitude row) \<and> readable demo_env (longitude row))
     [\<lparr>time_instant = ''12:30:99'', latitude = 10, longitude = 20\<rparr>]
   \<and> marker_position (flight_placemark demo_env (10, 20)) = Some (''20.0'', ''10.0'', ''0'')
   \<and> read_marker demo_env (flight_placemark demo_env (10, 20)) = Some (10, 20)"
proof -
  have h: "\<forall>row \<in> set [\<lparr>time_instant = ''12:30:99'', latitude = 10, longitude = 20\<rparr>].
             readable demo_env (latitude row) \<and> readable demo_env (longitude row)"
    using demo_readable by simp
  have s: "str_num demo_env 10 = ''10.0''" "str_num demo_env 20 = ''20.0''"
    by (simp_all add: demo_env_def str_int_def str_nat.simps)
  show ?thesis
    using h marker_coordinate_order [OF h, of True 100 10 20 "[]"] s
    by simp
qed

text \<open>
  Claim C4, at a record that is accepted (the centre itself, radius 100 nautical
  miles): the placemark written for it carries the letter \<open>s\<close> between the closing
  \<^verbatim>\<open></coordinates>\<close> and the end of the line.
\<close>

theorem marker_stray_character:
  "flight_accepted_kml demo_env True 100 (10, 20) (10, 20)
   \<and> flight_data demo_env True 100 10 20 [10] [20] [] =
       tabs 1 @ ''<Placemark>\<newline>'' @
       tabs 2 @ ''<styleUrl>#Flight</styleUrl>\<newline>'' @
       tabs 2 @ ''<Point>\<newline>'' @
       tabs 3 @ ''<coordinates>20.0,10.0,0</coordinates>s\<newline>'' @
       tabs 2 @ ''</Point>\<newline>'' @
       tabs 1 @ ''</Placemark>\<newline>''"
  by (simp add: flight_data_def flight_accepted_kml_def demo_gc writeKML_def
                flight_placemark_def point_coordinates_def demo_env_def str_int_def str_nat.simps)

section \<open>Runs of the scripts on concrete command lines\<close>

lemmas py_int_eval = py_int_def strip_def isspace_def isdigit_def decimal_def digit_val_def

lemmas argv_eval = arg_after_def getitem_def argv_filter_def argv_kml_def

lemmas check_eval = arguments_filtering_def man_arg_list_def numerical_values_def
  csv_check_def geojson_check_def file_check_def splitext_ext_def basename_def
  incorrect_time_format_def in_range_def

lemma demo_float_eval:
  "py_float demo_env ''10'' = Some 10" "py_float demo_env ''20'' = Some 20"
  "py_float demo_env ''0'' = Some 0"
  by (simp_all add: demo_env_def demo_float_def py_int_eval)

lemma demo_str_eval:
  "str_num demo_env 10 = ''10.0''" "str_num demo_env 20 = ''20.0''"
  "str_num demo_env 0 = ''0.0''" "str_num demo_env 1 = ''1.0''" "str_num demo_env 9 = ''9.0''"
  by (simp_all add: demo_env_def str_int_def str_nat.simps)

lemma demo_files:
  "isfile demo_env p = (p = ''firs.geojson'' \<or> p = ''flights.csv'')"
  "read_csv demo_env p = demo_flights" "pygeoj_load demo_env p = demo_features"
  by (simp_all add: demo_env_def)

text \<open>
  Claim C2, at the time \<^verbatim>\<open>12:30:99\<close>: the condition of section 0.2.2 compares
  \<^verbatim>\<open>sat_time_split[1]\<close> twice and never reads the seconds, so the time is let through and
  the filter script goes on to load the flights file and to print a count.
\<close>

theorem seconds_not_checked:
  "incorrect_time_format ''12:30:99'' = Inr False
   \<and> flights_one_sat_filter demo_env (argv_filter ''12:30:99'' ''100'') =
       \<lparr>stdout =
          [''\<newline>User input values:'', ''  Satellite time:      12:30:99'',
           ''  Satellite radius:    100 NM'', ''  Satellite latitude:  10.0'',
           ''  Satellite longitude: 20.0'', ''\<newline>Loading file...'',
           ''\<newline>Flights within satellite coverage: 1''],
        loaded = [''flights.csv''], out_file = None, raised = None\<rparr>"
proof -
  have t: "incorrect_time_format ''12:30:99'' = Inr False"
    by (simp add: incorrect_time_format_def in_range_def py_int_eval)
  have cnt: "aircraft_count demo_env True 100 10 20 [10] [20] = 1"
    by (simp add: aircraft_count_def flight_accepted_filter_def demo_gc)
  have run: "flights_one_sat_filter demo_env (argv_filter ''12:30:99'' ''100'') =
       \<lparr>stdout =
          [''\<newline>User input values:'', ''  Satellite time:      12:30:99'',
           ''  Satellite radius:    100 NM'', ''  Satellite latitude:  10.0'',
           ''  Satellite longitude: 20.0'', ''\<newline>Loading file...'',
           ''\<newline>Flights within satellite coverage: 1''],
        loaded = [''flights.csv''], out_file = None, raised = None\<rparr>"
    by (simp add: flights_one_sat_filter_def check_eval argv_eval demo_float_eval py_int_eval
                  demo_files filtered_df_def demo_flights_def cnt
                  user_information_def demo_str_eval str_int_def str_nat.simps)
  with t show ?thesis by simp
qed

text \<open>
  Claim C6, at the output name \<^verbatim>\<open>-out.kml\<close>: section 0.2.5 of the overlay script prints
  its two error lines and, having no \<^verbatim>\<open>sys.exit()\<close>, goes on: both input files are loaded
  and the whole document is written to \<^verbatim>\<open>./-out.kml\<close>; the run ends normally.
\<close>

theorem output_name_not_fatal:
  "flights_within_satcov_kml demo_env (argv_kml ''-out.kml'') =
     \<lparr>stdout =
        [''\<newline>ERROR: output name is not valid'', ''Please, introduce a valid name'',
         ''\<newline>User input values:'', ''  Satellite time:      12:00:00'',
         ''  Satellite radius:    10 NM'', ''  Satellite latitude:  0.0'',
         ''  Satellite longitude: 0.0'', ''\<newline>Loading geojson file...'',
         ''\<newline>Loading csv file...'', ''\<newline>Starting KML file creation...''],
      loaded = [''firs.geojson'', ''flights.csv''],
      out_file = Some (''./-out.kml'',
        kml_initial ''-out.kml'' @ style_FIR @ style_Flight @
        tabs 1 @ ''<Placemark>\<newline>'' @
        tabs 2 @ ''<name>TEST</name>\<newline>'' @
        tabs 2 @ ''<styleUrl>#FIR</styleUrl>\<newline>'' @
        tabs 2 @ ''<ExtendedData>\<newline>'' @
        tabs 3 @ ''<Data name='' @ dq @ ''FIRname'' @ dq @ ''>\<newline>'' @
        tabs 4 @ ''<value>TEST</value>\<newline>'' @
        tabs 3 @ ''</Data>\<newline>'' @
        tabs 2 @ ''</ExtendedData>\<newline>'' @
        tabs 2 @ ''<Polygon>\<newline>'' @
        tabs 3 @ ''<outerBoundaryIs>\<newline>'' @
        tabs 4 @ ''<LinearRing>\<newline>'' @
        tabs 5 @ ''<coordinates>\<newline>'' @
        tabs 6 @ ''0.0,0.0,0 1.0,0.0,0 1.0,1.0,0 0.0,1.0,0 '' @
        ''\<newline>'' @ tabs 5 @ ''</coordinates>\<newline>'' @
        tabs 4 @ ''</LinearRing>\<newline>'' @
        tabs 3 @ ''</outerBoundaryIs>\<newline>'' @
        tabs 2 @ ''</Polygon>\<newline>'' @
        tabs 1 @ ''</Placemark>\<newline>'' @
        flight_placemark demo_env (0, 9) @
        kml_closing),
      raised = None\<rparr>"
proof -
  have fir: "fir_placemark demo_env [[0, 0], [1, 0], [1, 1], [0, 1]] [(''FIRname'', PStr ''TEST'')]
     = Inr (tabs 1 @ ''<Placemark>\<newline>'' @
        tabs 2 @ ''<name>TEST</name>\<newline>'' @
        tabs 2 @ ''<styleUrl>#FIR</styleUrl>\<newline>'' @
        tabs 2 @ ''<ExtendedData>\<newline>'' @
        tabs 3 @ ''<Data name='' @ dq @ ''FIRname'' @ dq @ ''>\<newline>'' @
        tabs 4 @ ''<value>TEST</value>\<newline>'' @
        tabs 3 @ ''</Data>\<newline>'' @
        tabs 2 @ ''</ExtendedData>\<newline>'' @
        tabs 2 @ ''<Polygon>\<newline>'' @
        tabs 3 @ ''<outerBoundaryIs>\<newline>'' @
        tabs 4 @ ''<LinearRing>\<newline>'' @
        tabs 5 @ ''<coordinates>\<newline>'' @
        tabs 6 @ ''0.0,0.0,0 1.0,0.0,0 1.0,1.0,0 0.0,1.0,0 '' @
        ''\<newline>'' @ tabs 5 @ ''</coordinates>\<newline>'' @
        tabs 4 @ ''</LinearRing>\<newline>'' @
        tabs 3 @ ''</outerBoundaryIs>\<newline>'' @
        tabs 2 @ ''</Polygon>\<newline>'' @
        tabs 1 @ ''</Placemark>\<newline>'')"
    by (simp add: fir_placemark_def dict_get_def getitem_def extended_data_def str_pval_def
                  demo_str_eval)
  have fl: "flight_data demo_env True 10 0 0 [0, 0, 0] [9, 10, 11] f
          = f @ flight_placemark demo_env (0, 9)" for f
    using flight_data_rows [of demo_env True 10 0 0 "filtered_df demo_flights ''12:00:00''" f]
    by (simp add: demo_slice flight_accepted_kml_def demo_gc)
  have sl: "map latitude (filtered_df demo_flights ''12:00:00'') = [0, 0, 0]"
           "map longitude (filtered_df demo_flights ''12:00:00'') = [9, 10, 11]"
    by (simp_all add: demo_slice)
  have cr: "kml_creation demo_env argv out ''12:00:00'' True 10 0 0 =
     \<lparr>stdout = out @ [''\<newline>Loading geojson file...'',
         ''\<newline>Loading csv file...'', ''\<newline>Starting KML file creation...''],
      loaded = [''firs.geojson'', ''flights.csv''],
      out_file = Some (''./-out.kml'',
        kml_initial ''-out.kml'' @ style_FIR @ style_Flight @
        projr (fir_placemark demo_env [[0, 0], [1, 0], [1, 1], [0, 1]] [(''FIRname'', PStr ''TEST'')]) @
        flight_placemark demo_env (0, 9) @
        kml_closing),
      raised = None\<rparr>"
    if "argv ! 1 = ''firs.geojson''" "argv ! 2 = ''flights.csv''" "argv ! 3 = ''-out.kml''"
    for out argv
    using that
    by (simp add: kml_creation_def demo_files demo_features_def getitem_def
                  fir writeKML_def sl fl)
  show ?thesis
    by (simp add: flights_within_satcov_kml_def check_eval argv_eval demo_float_eval py_int_eval
                  demo_files startswith_def cr fir user_information_def demo_str_eval str_int_def str_nat.simps)
qed

section \<open>The radius argument\<close>

lemma digit_chars:
  "k < 10 \<Longrightarrow> isdigit (''0123456789'' ! k) \<and> digit_val (''0123456789'' ! k) = k
                \<and> \<not> isspace (''0123456789'' ! k) \<and> ''0123456789'' ! k \<noteq> CHR ''_''
                \<and> ''0123456789'' ! k \<noteq> CHR ''-'' \<and> ''0123456789'' ! k \<noteq> CHR ''+''"
proof -
  assume "k < 10"
  then have "k = 0 \<or> k = 1 \<or> k = 2 \<or> k = 3 \<or> k = 4 \<or> k = 5 \<or> k = 6 \<or> k = 7
             \<or> k = 8 \<or> k = 9"
    by arith
  then show ?thesis
    by (elim disjE) (simp_all add: isdigit_def digit_val_def isspace_def)
qed

lemma decimal_snoc: "decimal (ds @ [c]) = 10 * decimal ds + digit_val c"
  by (simp add: decimal_def)

lemma str_nat_digits:
  "str_nat n \<noteq> [] \<and> list_all isdigit (str_nat n) \<and> decimal (str_nat n) = n
   \<and> list_all (\<lambda>c. \<not> isspace c \<and> c \<noteq> CHR ''_'' \<and> c \<noteq> CHR ''-'' \<and> c \<noteq> CHR ''+'') (str_nat n)"
proof (induction n rule: str_nat.induct)
  case (1 n)
  show ?case
  proof (cases "n < 10")
    case True
    then have s: "str_nat n = [''0123456789'' ! n]"
      by (subst str_nat.simps) simp
    from True show ?thesis
      using digit_chars [of n] by (simp add: s decimal_def)
  next
    case False
    have m: "n mod 10 < 10" by simp
    from False have s: "str_nat n = str_nat (n div 10) @ [''0123456789'' ! (n mod 10)]"
      by (subst str_nat.simps) simp
    from False 1 have ih: "str_nat (n div 10) \<noteq> [] \<and> list_all isdigit (str_nat (n div 10))
       \<and> decimal (str_nat (n div 10)) = n div 10
       \<and> list_all (\<lambda>c. \<not> isspace c \<and> c \<noteq> CHR ''_'' \<and> c \<noteq> CHR ''-'' \<and> c \<noteq> CHR ''+'')
            (str_nat (n div 10))"
      by simp
    show ?thesis
      using ih digit_chars [OF m] by (simp add: s decimal_snoc)
  qed
qed

lemma dropWhile_all_not: "list_all (\<lambda>c. \<not> P c) s \<Longrightarrow> dropWhile P s = s"
  by (cases s) simp_all

lemma strip_no_space: "list_all (\<lambda>c. \<not> isspace c) s \<Longrightarrow> strip s = s"
  by (simp add: strip_def dropWhile_all_not list_all_iff)

lemma split_none: "sep \<notin> set a \<Longrightarrow> split sep a = [a]"
  by (induction a) auto

lemma py_int_str_nat: "py_int (str_nat n) = Some (int n)"
proof -
  let ?s = "str_nat n"
  from str_nat_digits [of n] have ne: "?s \<noteq> []" and dg: "list_all isdigit ?s"
    and dc: "decimal ?s = n"
    and cl: "list_all (\<lambda>c. \<not> isspace c \<and> c \<noteq> CHR ''_'' \<and> c \<noteq> CHR ''-'' \<and> c \<noteq> CHR ''+'') ?s"
    by simp_all
  from cl have st: "strip ?s = ?s"
    by (intro strip_no_space) (simp add: list_all_iff)
  from cl have us: "CHR ''_'' \<notin> set ?s" by (auto simp: list_all_iff)
  from ne obtain c r where cr: "?s = c # r" by (cases ?s) auto
  with cl have c: "c \<noteq> CHR ''-''" "c \<noteq> CHR ''+''" by simp_all
  have sp: "split (CHR ''_'') ?s = [?s]" using us by (rule split_none)
  show ?thesis
    unfolding py_int_def st Let_def
    using c dg dc ne sp by (simp add: cr)
qed

lemma py_int_str_int: "py_int (str_int i) = Some i"
proof (cases "i < 0")
  case False
  then show ?thesis by (simp add: str_int_def py_int_str_nat)
next
  case True
  let ?s = "str_nat (nat (- i))"
  from str_nat_digits [of "nat (- i)"] have ne: "?s \<noteq> []" and dg: "list_all isdigit ?s"
    and dc: "decimal ?s = nat (- i)"
    and cl: "list_all (\<lambda>c. \<not> isspace c \<and> c \<noteq> CHR ''_'' \<and> c \<noteq> CHR ''-'' \<and> c \<noteq> CHR ''+'') ?s"
    by simp_all
  have "list_all (\<lambda>c. \<not> isspace c) (CHR ''-'' # ?s)"
    using cl by (simp add: list_all_iff isspace_def)
  then have st: "strip (CHR ''-'' # ?s) = CHR ''-'' # ?s" by (rule strip_no_space)
  from cl have us: "CHR ''_'' \<notin> set ?s" by (auto simp: list_all_iff)
  have sp: "split (CHR ''_'') ?s = [?s]" using us by (rule split_none)
  show ?thesis
    unfolding str_int_def py_int_def Let_def
    using True dg dc ne sp by (simp add: st)
qed

lemma dropWhile_keeps: "x \<in> set xs \<Longrightarrow> \<not> P x \<Longrightarrow> x \<in> set (dropWhile P xs)"
  by (induction xs) auto

lemma strip_keeps: "x \<in> set s \<Longrightarrow> \<not> isspace x \<Longrightarrow> x \<in> set (strip s)"
  unfolding strip_def set_rev
  by (intro dropWhile_keeps) (simp_all add: dropWhile_keeps)

lemma split_keeps: "x \<in> set s \<Longrightarrow> x \<noteq> sep \<Longrightarrow> \<exists>g \<in> set (split sep s). x \<in> set g"
  by (induction s) (auto split: list.splits)

lemma py_int_point: "CHR ''.'' \<in> set c \<Longrightarrow> py_int c = None"
proof -
  assume "CHR ''.'' \<in> set c"
  then have t: "CHR ''.'' \<in> set (strip c)"
    by (rule strip_keeps) (simp add: isspace_def)
  define body where
    "body = (case strip c of [] \<Rightarrow> [] | x # r \<Rightarrow> if x = CHR ''-'' \<or> x = CHR ''+'' then r else strip c)"
  from t have "CHR ''.'' \<in> set body"
    by (cases "strip c") (auto simp: body_def)
  then obtain g where g: "g \<in> set (split (CHR ''_'') body)" "CHR ''.'' \<in> set g"
    using split_keeps [of "CHR ''.''" body "CHR ''_''"] by auto
  have "\<not> isdigit (CHR ''.'')"
    by (simp add: isdigit_def)
  with g(2) have "\<not> list_all isdigit g"
    unfolding list_all_iff by blast
  with g(1) have "\<not> list_all (\<lambda>g. g \<noteq> [] \<and> list_all isdigit g) (split (CHR ''_'') body)"
    unfolding list_all_iff by blast
  then have "(if list_all (\<lambda>g. g \<noteq> [] \<and> list_all isdigit g) (split (CHR ''_'') body)
              then Some v else None) = None" for v :: int
    by simp
  then show ?thesis
    unfolding py_int_def Let_def body_def .
qed

text \<open>
  Claim C5, as the specification states it, fails on both counts: the radius text
  \<^verbatim>\<open>1000.5\<close> is refused (the script prints that the argument values are incorrect and
  exits), and the radius \<^verbatim>\<open>-5\<close> is accepted (the script runs to its end).
\<close>

theorem radius_float_rejected:
  "numerical_values demo_env (argv_filter ''12:00:00'' ''1000.5'') = Inl ValueError
   \<and> flights_one_sat_filter demo_env (argv_filter ''12:00:00'' ''1000.5'')
       = stop [''\<newline>ERROR: Incorrect argument values\<newline>'', help_manual_filter] SystemExit
   \<and> numerical_values demo_env (argv_filter ''12:00:00'' ''-5'') = Inr (10, 20, - 5)
   \<and> raised (flights_one_sat_filter demo_env (argv_filter ''12:00:00'' ''-5'')) = None"
proof -
  have p: "py_int ''1000.5'' = None"
    by (rule py_int_point) simp
  have m: "py_int ''-5'' = Some (- 5)"
    using py_int_str_int [of "- 5"] by (simp add: str_int_def str_nat.simps)
  have a: "numerical_values demo_env (argv_filter ''12:00:00'' ''1000.5'') = Inl ValueError"
    by (simp add: numerical_values_def argv_eval demo_float_eval p)
  have b: "numerical_values demo_env (argv_filter ''12:00:00'' ''-5'') = Inr (10, 20, - 5)"
    by (simp add: numerical_values_def argv_eval demo_float_eval m)
  have c: "flights_one_sat_filter demo_env (argv_filter ''12:00:00'' ''1000.5'')
       = stop [''\<newline>ERROR: Incorrect argument values\<newline>'', help_manual_filter] SystemExit"
    by (simp add: flights_one_sat_filter_def a [unfolded argv_filter_def]
                  arguments_filtering_def man_arg_list_def argv_filter_def)
  have d: "raised (flights_one_sat_filter demo_env (argv_filter ''12:00:00'' ''-5'')) = None"
    by (simp add: flights_one_sat_filter_def b [unfolded argv_filter_def]
                  arguments_filtering_def man_arg_list_def argv_eval csv_check_def file_check_def splitext_ext_def basename_def
                  incorrect_time_format_def in_range_def py_int_eval demo_files stop_def Let_def)
  from a b c d show ?thesis by simp
qed

text \<open>
  Claim C5, amended. When the latitude and the longitude parse, section 0.2.1 accepts
  the radius exactly when \<^verbatim>\<open>int\<close> parses its text. Every integer printed in decimal is
  accepted with its own value, be it positive, zero or negative, so no positive radius is
  established; every text with a decimal point, such as \<^verbatim>\<open>1000.5\<close>, is refused as an
  incorrect argument value.
\<close>

theorem radius_validation_integer:
  assumes "arg_after argv ''-lat'' = Inr a" "py_float env a = Some sat_lat"
      and "arg_after argv ''-lon'' = Inr b" "py_float env b = Some sat_lon"
      and "arg_after argv ''-rad'' = Inr c"
  shows "numerical_values env argv
           = (case py_int c of
                Some sat_radius \<Rightarrow> Inr (sat_lat, sat_lon, sat_radius)
              | None \<Rightarrow> Inl ValueError)
       \<and> (c = str_int i \<longrightarrow> numerical_values env argv = Inr (sat_lat, sat_lon, i))
       \<and> (CHR ''.'' \<in> set c \<longrightarrow> numerical_values env argv = Inl ValueError)"
proof -
  have n: "numerical_values env argv
           = (case py_int c of
                Some sat_radius \<Rightarrow> Inr (sat_lat, sat_lon, sat_radius)
              | None \<Rightarrow> Inl ValueError)"
    using assms by (simp add: numerical_values_def split: option.splits)
  show ?thesis
    by (simp add: n py_int_str_int py_int_point)
qed

theorem radius_validation_integer_witness:
  "arg_after (argv_filter ''12:00:00'' ''-5'') ''-lat'' = Inr ''10''
   \<and> py_float demo_env ''10'' = Some 10
   \<and> arg_after (argv_filter ''12:00:00'' ''-5'') ''-lon'' = Inr ''20''
   \<and> py_float demo_env ''20'' = Some 20
   \<and> arg_after (argv_filter ''12:00:00'' ''-5'') ''-rad'' = Inr ''-5''
   \<and> ''-5'' = str_int (- 5)
   \<and> numerical_values demo_env (argv_filter ''12:00:00'' ''-5'') = Inr (10, 20, - 5)
   \<and> arg_after (argv_filter ''12:00:00'' ''1000.5'') ''-rad'' = Inr ''1000.5''
   \<and> CHR ''.'' \<in> set ''1000.5''
   \<and> numerical_values demo_env (argv_filter ''12:00:00'' ''1000.5'') = Inl ValueError"
proof -
  have h: "arg_after (argv_filter ''12:00:00'' r) ''-lat'' = Inr ''10''"
          "arg_after (argv_filter ''12:00:00'' r) ''-lon'' = Inr ''20''"
          "arg_after (argv_filter ''12:00:00'' r) ''-rad'' = Inr r" for r
    by (simp_all add: argv_eval)
  have s: "''-5'' = str_int (- 5)"
    by (simp add: str_int_def str_nat.simps)
  have d: "CHR ''.'' \<in> set ''1000.5''" by simp
  note f = demo_float_eval(1,2)
  from radius_validation_integer [OF h(1) f(1) h(2) f(2) h(3), of "''-5''" "- 5"] s
  have x: "numerical_values demo_env (argv_filter ''12:00:00'' ''-5'') = Inr (10, 20, - 5)"
    by blast
  from radius_validation_integer [OF h(1) f(1) h(2) f(2) h(3), of "''1000.5''" 0] d
  have y: "numerical_values demo_env (argv_filter ''12:00:00'' ''1000.5'') = Inl ValueError"
    by blast
  from h f s d x y show ?thesis by blast
qed

section \<open>Boundary features that cannot be rendered\<close>

lemma getFIRs_result:
  "getFIRs fs =
     (if \<exists>f \<in> set fs. coordinates f = [] then Inl IndexError
      else Inr (map (\<lambda>f. coordinates f ! 0) fs, map properties fs))"
  by (induction fs) (auto simp: getitem_def)

lemma fir_data_appends: "\<exists>text. fst (fir_data env ps ns kml_file) = kml_file @ text"
proof (induction env ps ns kml_file rule: fir_data.induct)
  case (1 env ring polygons d names kml_file)
  show ?case
  proof (cases "fir_placemark env ring d")
    case (Inl e)
    then show ?thesis by simp
  next
    case (Inr kml_text)
    with 1 obtain tail where
      "fst (fir_data env polygons names (kml_file @ kml_text)) = (kml_file @ kml_text) @ tail"
      by (auto simp: writeKML_def)
    with Inr show ?thesis by (simp add: writeKML_def)
  qed
qed simp_all

lemma fir_data_raises:
  "(ring, d) \<in> set (zip ps ns) \<Longrightarrow> fir_placemark env ring d = Inl e \<Longrightarrow>
   \<exists>e'. snd (fir_data env ps ns kml_file) = Some e'"
proof (induction env ps ns kml_file rule: fir_data.induct)
  case (1 env ring' polygons d' names kml_file)
  show ?case
  proof (cases "fir_placemark env ring' d'")
    case (Inl e'')
    then show ?thesis by simp
  next
    case (Inr kml_text)
    with "1.prems" have "(ring, d) \<in> set (zip polygons names)" by auto
    with 1 Inr show ?thesis by simp
  qed
qed simp_all

lemma zip_map_same: "f \<in> set fs \<Longrightarrow> (g f, h f) \<in> set (zip (map g fs) (map h fs))"
  by (induction fs) auto

lemma fir_placemark_unlabelled:
  "map_of d ''FIRname'' = None \<Longrightarrow> fir_placemark env ring d = Inl KeyError"
  by (simp add: fir_placemark_def dict_get_def)

lemma kml_creation_ringless:
  assumes "f \<in> set (pygeoj_load env (argv ! 1))" "coordinates f = []"
  shows "kml_creation env argv out sat_time radius_in_mn sat_radius sat_lat sat_lon =
           \<lparr>stdout = out @ [''\<newline>Loading geojson file...''], loaded = [argv ! 1],
            out_file = None, raised = Some IndexError\<rparr>"
proof -
  from assms have "getFIRs (pygeoj_load env (argv ! 1)) = Inl IndexError"
    by (auto simp: getFIRs_result)
  then show ?thesis by (simp add: kml_creation_def)
qed

lemma kml_creation_unlabelled:
  assumes "f \<in> set (pygeoj_load env (argv ! 1))" "map_of (properties f) ''FIRname'' = None"
      and "list_all (\<lambda>g. coordinates g \<noteq> []) (pygeoj_load env (argv ! 1))"
  shows "\<exists>text e. kml_creation env argv out sat_time radius_in_mn sat_radius sat_lat sat_lon =
           \<lparr>stdout = out @ [''\<newline>Loading geojson file...'', ''\<newline>Loading csv file...'',
                           ''\<newline>Starting KML file creation...''],
            loaded = [argv ! 1, argv ! 2],
            out_file = Some (''./'' @ argv ! 3,
                             kml_initial (argv ! 3) @ style_FIR @ style_Flight @ text),
            raised = Some e\<rparr>"
proof -
  let ?fs = "pygeoj_load env (argv ! 1)"
  let ?ps = "map (\<lambda>f. coordinates f ! 0) ?fs"
  let ?ns = "map properties ?fs"
  let ?k = "kml_initial (argv ! 3) @ style_FIR @ style_Flight"
  from assms(3) have g: "getFIRs ?fs = Inr (?ps, ?ns)"
    by (auto simp: getFIRs_result list_all_iff)
  from assms(1) have "(coordinates f ! 0, properties f) \<in> set (zip ?ps ?ns)"
    by (rule zip_map_same)
  with fir_placemark_unlabelled [OF assms(2)]
  obtain e where e: "snd (fir_data env ?ps ?ns ?k) = Some e"
    using fir_data_raises by blast
  obtain tail where t: "fst (fir_data env ?ps ?ns ?k) = ?k @ tail"
    using fir_data_appends by blast
  from e t have "fir_data env ?ps ?ns ?k = (?k @ tail, Some e)"
    by (cases "fir_data env ?ps ?ns ?k") simp
  with g have "kml_creation env argv out sat_time radius_in_mn sat_radius sat_lat sat_lon =
           \<lparr>stdout = out @ [''\<newline>Loading geojson file...'', ''\<newline>Loading csv file...'',
                           ''\<newline>Starting KML file creation...''],
            loaded = [argv ! 1, argv ! 2],
            out_file = Some (''./'' @ argv ! 3, ?k @ tail),
            raised = Some e\<rparr>"
    by (simp add: kml_creation_def writeKML_def Let_def)
  then show ?thesis by auto
qed

lemma script_stops_or_creates:
  "(\<exists>out e. flights_within_satcov_kml env argv = stop out e) \<or>
   (\<exists>out sat_time radius_in_mn sat_radius sat_lat sat_lon.
      flights_within_satcov_kml env argv
        = kml_creation env argv out sat_time radius_in_mn sat_radius sat_lat sat_lon)"
  unfolding flights_within_satcov_kml_def Let_def
  by (simp split: option.split sum.split exn.split bool.split prod.split) blast

lemma script_raises:
  assumes "\<And>out sat_time radius_in_mn sat_radius sat_lat sat_lon.
             raised (kml_creation env argv out sat_time radius_in_mn sat_radius sat_lat sat_lon)
               \<noteq> None"
  shows "raised (flights_within_satcov_kml env argv) \<noteq> None"
  using script_stops_or_creates [of env argv] assms by (auto simp: stop_def)

lemma script_no_file:
  assumes "\<And>out sat_time radius_in_mn sat_radius sat_lat sat_lon.
             out_file (kml_creation env argv out sat_time radius_in_mn sat_radius sat_lat sat_lon)
               = None"
  shows "out_file (flights_within_satcov_kml env argv) = None"
  using script_stops_or_creates [of env argv] assms by (auto simp: stop_def)

text \<open>
  Claim C7, as the specification states it, fails at a boundary file whose feature has a
  ring and no \<^verbatim>\<open>FIRname\<close>: region loading succeeds (the flights file is loaded after it),
  the output file is opened, the header and both styles are written, and only then does
  the run end with a \<^verbatim>\<open>KeyError\<close>, leaving that part of the document behind.
\<close>

theorem unlabelled_feature_partial_output:
  "flights_within_satcov_kml (with_features unlabelled_features) (argv_kml ''out.kml'') =
     \<lparr>stdout =
        [''\<newline>User input values:'', ''  Satellite time:      12:00:00'',
         ''  Satellite radius:    10 NM'', ''  Satellite latitude:  0.0'',
         ''  Satellite longitude: 0.0'', ''\<newline>Loading geojson file...'',
         ''\<newline>Loading csv file...'', ''\<newline>Starting KML file creation...''],
      loaded = [''firs.geojson'', ''flights.csv''],
      out_file = Some (''./out.kml'', kml_initial ''out.kml'' @ style_FIR @ style_Flight),
      raised = Some KeyError\<rparr>"
proof -
  have e: "py_float (with_features fs) = py_float demo_env"
          "str_num (with_features fs) = str_num demo_env"
          "isfile (with_features fs) = isfile demo_env"
          "read_csv (with_features fs) = read_csv demo_env"
          "pygeoj_load (with_features fs) p = fs" for fs p
    by (simp_all add: with_features_def)
  have cr: "kml_creation (with_features unlabelled_features) argv out ''12:00:00'' True 10 0 0 =
     \<lparr>stdout = out @ [''\<newline>Loading geojson file...'',
         ''\<newline>Loading csv file...'', ''\<newline>Starting KML file creation...''],
      loaded = [''firs.geojson'', ''flights.csv''],
      out_file = Some (''./out.kml'', kml_initial ''out.kml'' @ style_FIR @ style_Flight),
      raised = Some KeyError\<rparr>"
    if "argv ! 1 = ''firs.geojson''" "argv ! 2 = ''flights.csv''" "argv ! 3 = ''out.kml''"
    for out argv
    using that
    by (simp add: kml_creation_def e unlabelled_features_def getitem_def writeKML_def
                  fir_placemark_def dict_get_def)
  show ?thesis
    by (simp add: flights_within_satcov_kml_def check_eval argv_eval e demo_float_eval py_int_eval
                  demo_files startswith_def cr user_information_def demo_str_eval
                  str_int_def str_nat.simps)
qed

text \<open>
  Claim C7, amended. A feature with no ring at all makes \<^verbatim>\<open>getFIRs\<close> raise
  (\<^verbatim>\<open>IndexError\<close>): the run ends there, before the flights file is read and before the
  output file is opened, and no output is left behind. A feature without \<^verbatim>\<open>FIRname\<close>
  also ends the run with an exception, but region loading does not detect it: when every
  feature has a ring, the exception is raised while the FIR placemarks are built, after
  the output file has been opened, and the file keeps the header, the two styles and
  whatever was written before.
\<close>

theorem region_loading_failures:
  assumes "f \<in> set (pygeoj_load env (argv ! 1))"
  shows "(coordinates f = [] \<longrightarrow>
            kml_creation env argv out sat_time radius_in_mn sat_radius sat_lat sat_lon =
              \<lparr>stdout = out @ [''\<newline>Loading geojson file...''], loaded = [argv ! 1],
               out_file = None, raised = Some IndexError\<rparr>
            \<and> raised (flights_within_satcov_kml env argv) \<noteq> None
            \<and> out_file (flights_within_satcov_kml env argv) = None)
       \<and> (map_of (properties f) ''FIRname'' = None \<longrightarrow>
            raised (flights_within_satcov_kml env argv) \<noteq> None
            \<and> (list_all (\<lambda>g. coordinates g \<noteq> []) (pygeoj_load env (argv ! 1)) \<longrightarrow>
                (\<exists>text e.
                   kml_creation env argv out sat_time radius_in_mn sat_radius sat_lat sat_lon =
                     \<lparr>stdout = out @ [''\<newline>Loading geojson file...'',
                                     ''\<newline>Loading csv file...'',
                                     ''\<newline>Starting KML file creation...''],
                      loaded = [argv ! 1, argv ! 2],
                      out_file = Some (''./'' @ argv ! 3,
                                       kml_initial (argv ! 3) @ style_FIR @ style_Flight @ text),
                      raised = Some e\<rparr>)))"
proof (intro conjI impI)
  assume c: "coordinates f = []"
  note r = kml_creation_ringless [OF assms c]
  show "kml_creation env argv out sat_time radius_in_mn sat_radius sat_lat sat_lon =
              \<lparr>stdout = out @ [''\<newline>Loading geojson file...''], loaded = [argv ! 1],
               out_file = None, raised = Some IndexError\<rparr>"
    by (rule r)
  show "raised (flights_within_satcov_kml env argv) \<noteq> None"
    by (rule script_raises) (simp add: r)
  show "out_file (flights_within_satcov_kml env argv) = None"
    by (rule script_no_file) (simp add: r)
next
  assume u: "map_of (properties f) ''FIRname'' = None"
  show "raised (flights_within_satcov_kml env argv) \<noteq> None"
  proof (rule script_raises)
    fix out sat_time radius_in_mn sat_radius sat_lat sat_lon
    show "raised (kml_creation env argv out sat_time radius_in_mn sat_radius sat_lat sat_lon)
            \<noteq> None"
    proof (cases "list_all (\<lambda>g. coordinates g \<noteq> []) (pygeoj_load env (argv ! 1))")
      case True
      from kml_creation_unlabelled [OF assms u True, of out sat_time radius_in_mn sat_radius
             sat_lat sat_lon]
      show ?thesis by auto
    next
      case False
      then obtain g where "g \<in> set (pygeoj_load env (argv ! 1))" "coordinates g = []"
        by (auto simp: list_all_iff)
      from kml_creation_ringless [OF this] show ?thesis by simp
    qed
  qed
next
  assume u: "map_of (properties f) ''FIRname'' = None"
    and a: "list_all (\<lambda>g. coordinates g \<noteq> []) (pygeoj_load env (argv ! 1))"
  show "\<exists>text e.
          kml_creation env argv out sat_time radius_in_mn sat_radius sat_lat sat_lon =
            \<lparr>stdout = out @ [''\<newline>Loading geojson file...'',
                            ''\<newline>Loading csv file...'',
                            ''\<newline>Starting KML file creation...''],
             loaded = [argv ! 1, argv ! 2],
             out_file = Some (''./'' @ argv ! 3,
                              kml_initial (argv ! 3) @ style_FIR @ style_Flight @ text),
             raised = Some e\<rparr>"
    by (rule kml_creation_unlabelled [OF assms u a])
qed

theorem region_loading_failures_witness:
  "hd ringless_features \<in> set (pygeoj_load (with_features ringless_features) (argv_kml ''out.kml'' ! 1))
   \<and> coordinates (hd ringless_features) = []
   \<and> kml_creation (with_features ringless_features) (argv_kml ''out.kml'') [] ''12:00:00'' True 10 0 0 =
        \<lparr>stdout = [''\<newline>Loading geojson file...''], loaded = [''firs.geojson''],
         out_file = None, raised = Some IndexError\<rparr>
   \<and> raised (flights_within_satcov_kml (with_features ringless_features) (argv_kml ''out.kml'')) \<noteq> None
   \<and> out_file (flights_within_satcov_kml (with_features ringless_features) (argv_kml ''out.kml'')) = None
   \<and> hd unlabelled_features
        \<in> set (pygeoj_load (with_features unlabelled_features) (argv_kml ''out.kml'' ! 1))
   \<and> map_of (properties (hd unlabelled_features)) ''FIRname'' = None
   \<and> list_all (\<lambda>g. coordinates g \<noteq> [])
        (pygeoj_load (with_features unlabelled_features) (argv_kml ''out.kml'' ! 1))
   \<and> raised (flights_within_satcov_kml (with_features unlabelled_features) (argv_kml ''out.kml'')) \<noteq> None
   \<and> (\<exists>text e.
         kml_creation (with_features unlabelled_features) (argv_kml ''out.kml'') [] ''12:00:00'' True 10 0 0 =
           \<lparr>stdout = [''\<newline>Loading geojson file...'', ''\<newline>Loading csv file...'',
                      ''\<newline>Starting KML file creation...''],
            loaded = [''firs.geojson'', ''flights.csv''],
            out_file = Some (''./out.kml'',
                             kml_initial ''out.kml'' @ style_FIR @ style_Flight @ text),
            raised = Some e\<rparr>)"
proof -
  have l: "pygeoj_load (with_features fs) p = fs" for fs p
    by (simp add: with_features_def)
  have a: "argv_kml ''out.kml'' ! 1 = ''firs.geojson''" "argv_kml ''out.kml'' ! 2 = ''flights.csv''"
          "argv_kml ''out.kml'' ! 3 = ''out.kml''"
    by (simp_all add: argv_kml_def)
  have r1: "hd ringless_features
              \<in> set (pygeoj_load (with_features ringless_features) (argv_kml ''out.kml'' ! 1))"
    by (simp add: l ringless_features_def)
  have r2: "coordinates (hd ringless_features) = []"
    by (simp add: ringless_features_def)
  have u1: "hd unlabelled_features
              \<in> set (pygeoj_load (with_features unlabelled_features) (argv_kml ''out.kml'' ! 1))"
    by (simp add: l unlabelled_features_def)
  have u2: "map_of (properties (hd unlabelled_features)) ''FIRname'' = None"
    by (simp add: unlabelled_features_def)
  have u3: "list_all (\<lambda>g. coordinates g \<noteq> [])
              (pygeoj_load (with_features unlabelled_features) (argv_kml ''out.kml'' ! 1))"
    by (simp add: l unlabelled_features_def)
  note x = region_loading_failures [OF r1, of "[]" "''12:00:00''" True 10 0 0]
  note y = region_loading_failures [OF u1, of "[]" "''12:00:00''" True 10 0 0]
  from x r2 have x': "kml_creation (with_features ringless_features) (argv_kml ''out.kml'') []
                        ''12:00:00'' True 10 0 0 =
        \<lparr>stdout = [] @ [''\<newline>Loading geojson file...''], loaded = [argv_kml ''out.kml'' ! 1],
         out_file = None, raised = Some IndexError\<rparr>
      \<and> raised (flights_within_satcov_kml (with_features ringless_features) (argv_kml ''out.kml'')) \<noteq> None
      \<and> out_file (flights_within_satcov_kml (with_features ringless_features) (argv_kml ''out.kml'')) = None"
    by blast
  from y u2 u3 have y': "raised (flights_within_satcov_kml (with_features unlabelled_features)
                                  (argv_kml ''out.kml'')) \<noteq> None
      \<and> (\<exists>text e.
         kml_creation (with_features unlabelled_features) (argv_kml ''out.kml'') [] ''12:00:00'' True 10 0 0 =
           \<lparr>stdout = [] @ [''\<newline>Loading geojson file...'', ''\<newline>Loading csv file...'',
                      ''\<newline>Starting KML file creation...''],
            loaded = [argv_kml ''out.kml'' ! 1, argv_kml ''out.kml'' ! 2],
            out_file = Some (''./'' @ argv_kml ''out.kml'' ! 3,
                             kml_initial (argv_kml ''out.kml'' ! 3) @ style_FIR @ style_Flight @ text),
            raised = Some e\<rparr>)"
    by blast
  from x' y' r1 r2 u1 u2 u3 show ?thesis
    unfolding a by simp
qed


end
